theory Spec2Isabelle
  imports Main "HOL-Library.Char_ord" "HOL-Library.List_Lexorder"
begin

section \<open>Data model\<close>

text \<open>
  The model classes live in \<^verbatim>\<open>core/models.py\<close>, which the views import. JSON objects
  (request payloads, serializer output, error details) are association lists from field
  names to rendered values.
\<close>

type_synonym json = "(string \<times> string) list"

text \<open>Text is a list of characters, each a code point below 256; header values are the
  bytes of the header. Text with other code points is outside this model.\<close>

text \<open>Modelled from the spec: \<^verbatim>\<open>core.models.User\<close> is missing; a user is an identity
  (primary key, e-mail) with credentials, and the flag the token authenticator reads.\<close>

record user =
  user_pk :: int
  user_email :: string
  user_password :: string
  user_is_active :: bool

text \<open>Modelled from the spec: \<^verbatim>\<open>core.models.Tag\<close> and \<^verbatim>\<open>core.models.Ingredient\<close> are
  missing; both are named attributes owned by a user (a foreign key to the user).\<close>

record attr =
  attr_pk :: int
  attr_user :: int
  attr_name :: string

text \<open>Modelled from the spec: \<^verbatim>\<open>core.models.Recipe\<close> is missing; it belongs to one user,
  has title, description, time estimate, price (in hundredths), an optional image, and
  many-to-many links to tags and ingredients (the primary keys of the linked rows).\<close>

record recipe =
  recipe_pk :: int
  recipe_user :: int
  recipe_title :: string
  recipe_description :: string
  recipe_time_minutes :: int
  recipe_price :: int
  recipe_image :: "string option"
  recipe_tags :: "int list"
  recipe_ingredients :: "int list"

text \<open>The relational store: one list of rows per table, in table order, and the token
  table of \<^verbatim>\<open>rest_framework.authtoken\<close> (key, primary key of the user).\<close>

record db =
  db_users :: "user list"
  db_tokens :: "(string \<times> int) list"
  db_recipes :: "recipe list"
  db_tags :: "attr list"
  db_ingredients :: "attr list"

datatype attr_model = Tag | Ingredient

section \<open>Exceptions, requests, responses\<close>

datatype exn =
    AttributeError string string
  | ValueError
  | TypeError
  | FieldError string
  | NotAuthenticated
  | AuthenticationFailed string
  | PermissionDenied
  | Http404
  | MultipleObjectsReturned
  | ValidationError json

text \<open>A request as the views read it: the words of the \<^verbatim>\<open>Authorization\<close> header (empty
  when the header is absent), the query string as key/value pairs in URL order, the
  parsed body, and \<^verbatim>\<open>request.user\<close> (\<open>None\<close> is the anonymous user), which
  authentication sets.\<close>

record request =
  auth_header :: "string list"
  query_params :: "(string \<times> string) list"
  data :: json
  req_user :: "user option"

text \<open>Response bodies: a serialised instance, a list of them, a page of them in its
  envelope, the field errors of a validation, the detail that the exception handler
  renders from an exception (\<open>Failure\<close>, the text being the exception's message), or
  nothing.\<close>

datatype body =
    Object json
  | Rows "json list"
  | Page json "json list"
  | Detail json
  | Failure exn
  | Empty

record response =
  status :: nat
  content :: body

definition HTTP_200_OK :: nat where "HTTP_200_OK = 200"
definition HTTP_204_NO_CONTENT :: nat where "HTTP_204_NO_CONTENT = 204"
definition HTTP_400_BAD_REQUEST :: nat where "HTTP_400_BAD_REQUEST = 400"
definition HTTP_401_UNAUTHORIZED :: nat where "HTTP_401_UNAUTHORIZED = 401"
definition HTTP_403_FORBIDDEN :: nat where "HTTP_403_FORBIDDEN = 403"
definition HTTP_404_NOT_FOUND :: nat where "HTTP_404_NOT_FOUND = 404"

definition Response :: "body \<Rightarrow> nat \<Rightarrow> response" where
  "Response b s = \<lparr>status = s, content = b\<rparr>"

section \<open>Python built-ins the views call\<close>

text \<open>\<^verbatim>\<open>QueryDict.get(key, default)\<close>: the last value given for the key.\<close>

definition qp_get :: "(string \<times> string) list \<Rightarrow> string \<Rightarrow> string option" where
  "qp_get qp k = (case filter (\<lambda>kv. fst kv = k) qp of [] \<Rightarrow> None | kvs \<Rightarrow> Some (snd (last kvs)))"

text \<open>The whitespace \<^verbatim>\<open>int()\<close> skips around an ASCII literal.\<close>

definition is_space :: "char \<Rightarrow> bool" where
  "is_space c = (c \<in> set [CHR '' '', CHR 0x09, CHR 0x0A, CHR 0x0B, CHR 0x0C, CHR 0x0D])"

definition strip :: "string \<Rightarrow> string" where
  "strip s = rev (dropWhile is_space (rev (dropWhile is_space s)))"

text \<open>The whitespace of \<^verbatim>\<open>str.strip()\<close> and \<^verbatim>\<open>str.split()\<close>: the characters for which
  \<^verbatim>\<open>str.isspace()\<close> holds, among the code points below 256.\<close>

definition str_isspace :: "char \<Rightarrow> bool" where
  "str_isspace c =
     (c \<in> set [CHR '' '', CHR 0x09, CHR 0x0A, CHR 0x0B, CHR 0x0C, CHR 0x0D,
                CHR 0x1C, CHR 0x1D, CHR 0x1E, CHR 0x1F, CHR 0x85, CHR 0xA0])"

definition str_strip :: "string \<Rightarrow> string" where
  "str_strip s = rev (dropWhile str_isspace (rev (dropWhile str_isspace s)))"

definition is_digit :: "char \<Rightarrow> bool" where
  "is_digit c = (c \<in> set ''0123456789'')"

definition digit_val :: "char \<Rightarrow> int" where
  "digit_val c = int (of_char c) - 48"

text \<open>The digits of an integer literal after the first one: single underscores are
  allowed between digits.\<close>

fun parse_digits :: "int \<Rightarrow> string \<Rightarrow> int option" where
  "parse_digits acc [] = Some acc"
| "parse_digits acc [c] = (if is_digit c then Some (acc * 10 + digit_val c) else None)"
| "parse_digits acc (c # d # ds) =
     (if is_digit c then parse_digits (acc * 10 + digit_val c) (d # ds)
      else if c = CHR ''_'' \<and> is_digit d then parse_digits (acc * 10 + digit_val d) ds
      else None)"

definition parse_unsigned :: "string \<Rightarrow> int option" where
  "parse_unsigned s =
     (case s of [] \<Rightarrow> None
      | c # cs \<Rightarrow> if is_digit c then parse_digits (digit_val c) cs else None)"

text \<open>\<^verbatim>\<open>int(s)\<close> on ASCII text: surrounding whitespace, an optional sign, decimal digits.
  \<open>None\<close> is the \<^verbatim>\<open>ValueError\<close> it raises.\<close>

definition ascii_int :: "string \<Rightarrow> int option" where
  "ascii_int s =
     (case strip s of [] \<Rightarrow> None
      | c # cs \<Rightarrow>
          if c = CHR ''-'' then map_option uminus (parse_unsigned cs)
          else if c = CHR ''+'' then parse_unsigned cs
          else parse_unsigned (c # cs))"

text \<open>
  What the model leaves to the Python runtime the views run on. \<^verbatim>\<open>int()\<close> of text that is
  not plain ASCII, or that has more than 640 digits, depends on the interpreter's Unicode
  tables and on its digit limit (none before its introduction, 4300 by default since, never
  set below 640): \<open>builtin_int\<close> is \<^verbatim>\<open>int()\<close> on such text. \<open>number_field\<close> is what the
  number field of a filter makes of one value: an error message, or the id the lookup uses
  (none for an empty value).
\<close>

record runtime =
  builtin_int :: "string \<Rightarrow> int option"
  number_field :: "string \<Rightarrow> string + int option"

definition is_ascii :: "char \<Rightarrow> bool" where
  "is_ascii c = ((of_char c :: nat) < 128)"

definition py_int :: "runtime \<Rightarrow> string \<Rightarrow> int option" where
  "py_int rt s =
     (if list_all is_ascii s \<and> length (filter is_digit s) \<le> 640 then ascii_int s
      else builtin_int rt s)"

text \<open>\<^verbatim>\<open>s.split(',')\<close> and \<^verbatim>\<open>s.split()\<close>.\<close>

fun split_on :: "char \<Rightarrow> string \<Rightarrow> string list" where
  "split_on sep [] = [[]]"
| "split_on sep (c # cs) =
     (if c = sep then [] # split_on sep cs
      else (case split_on sep cs of [] \<Rightarrow> [[c]] | w # ws \<Rightarrow> (c # w) # ws))"

definition split_ws :: "string \<Rightarrow> string list" where
  "split_ws s =
     filter (\<lambda>w. w \<noteq> [])
       (split_on (CHR '' '') (map (\<lambda>c. if str_isspace c then CHR '' '' else c) s))"

definition lower_char :: "char \<Rightarrow> char" where
  "lower_char c =
     (case map_of (zip ''ABCDEFGHIJKLMNOPQRSTUVWXYZ'' ''abcdefghijklmnopqrstuvwxyz'') c of
        None \<Rightarrow> c
      | Some l \<Rightarrow> l)"

fun startswith :: "string \<Rightarrow> string \<Rightarrow> bool" where
  "startswith s [] = True"
| "startswith [] (p # ps) = False"
| "startswith (c # cs) (p # ps) = (c = p \<and> startswith cs ps)"

fun contains :: "string \<Rightarrow> string \<Rightarrow> bool" where
  "contains [] needle = (needle = [])"
| "contains (c # cs) needle = (startswith (c # cs) needle \<or> contains cs needle)"

definition icontains :: "string \<Rightarrow> string \<Rightarrow> bool" where
  "icontains s needle = contains (map lower_char s) (map lower_char needle)"

section \<open>Querysets\<close>

text \<open>
  A queryset is a query under construction: the rows its joins and filters select so far
  (a join yields one row per related row) and the \<^verbatim>\<open>DISTINCT\<close> flag, which every later
  clone keeps and which is applied when the rows are fetched.
\<close>

record 'a queryset =
  qs_rows :: "'a list"
  qs_distinct :: bool

definition objects_all :: "'a list \<Rightarrow> 'a queryset" where
  "objects_all table = \<lparr>qs_rows = table, qs_distinct = False\<rparr>"

definition qs_filter :: "('a \<Rightarrow> bool) \<Rightarrow> 'a queryset \<Rightarrow> 'a queryset" where
  "qs_filter P qs = qs\<lparr>qs_rows := filter P (qs_rows qs)\<rparr>"

definition qs_join :: "('a \<Rightarrow> 'b list) \<Rightarrow> 'a queryset \<Rightarrow> 'a queryset" where
  \<comment> \<open>an inner join to the related rows a filter crosses\<close>
  "qs_join rel qs = qs\<lparr>qs_rows := concat (map (\<lambda>x. map (\<lambda>_. x) (rel x)) (qs_rows qs))\<rparr>"

definition qs_distinct_on :: "'a queryset \<Rightarrow> 'a queryset" where
  "qs_distinct_on qs = qs\<lparr>qs_distinct := True\<rparr>"

definition fetch :: "'a queryset \<Rightarrow> 'a list" where
  "fetch qs = (if qs_distinct qs then remdups (qs_rows qs) else qs_rows qs)"

fun collect :: "('e + 'a) list \<Rightarrow> 'e + 'a list" where
  "collect [] = Inr []"
| "collect (x # xs) =
     (case x of Inl e \<Rightarrow> Inl e
      | Inr v \<Rightarrow> (case collect xs of Inl e \<Rightarrow> Inl e | Inr vs \<Rightarrow> Inr (v # vs)))"

subsection \<open>Ordering\<close>

text \<open>A sortable column is an integer or a text column; text compares by code point.\<close>

datatype 'a sort_key = IntKey "'a \<Rightarrow> int" | StrKey "'a \<Rightarrow> string"

fun key_lt :: "'a sort_key \<Rightarrow> 'a \<Rightarrow> 'a \<Rightarrow> bool" where
  "key_lt (IntKey f) a b = (f a < f b)"
| "key_lt (StrKey f) a b = (f a < f b)"

text \<open>\<^verbatim>\<open>ORDER BY\<close> over several terms: the first term decides, ties go to the next.\<close>

fun term_le :: "(bool \<times> 'a sort_key) list \<Rightarrow> 'a \<Rightarrow> 'a \<Rightarrow> bool" where
  "term_le [] a b = True"
| "term_le ((desc, k) # ks) a b =
     (if desc
      then (if key_lt k b a then True else if key_lt k a b then False else term_le ks a b)
      else (if key_lt k a b then True else if key_lt k b a then False else term_le ks a b))"

fun insort_by :: "('a \<Rightarrow> 'a \<Rightarrow> bool) \<Rightarrow> 'a \<Rightarrow> 'a list \<Rightarrow> 'a list" where
  "insort_by le x [] = [x]"
| "insort_by le x (y # ys) = (if le x y then x # y # ys else y # insort_by le x ys)"

definition sort_by :: "('a \<Rightarrow> 'a \<Rightarrow> bool) \<Rightarrow> 'a list \<Rightarrow> 'a list" where
  "sort_by le xs = foldr (insort_by le) xs []"

definition resolve_term ::
  "(string \<Rightarrow> 'a sort_key option) \<Rightarrow> string \<Rightarrow> exn + (bool \<times> 'a sort_key)" where
  "resolve_term fld t =
     (let desc = startswith t ''-''; name = (if desc then tl t else t)
      in case fld name of None \<Rightarrow> Inl (FieldError name) | Some k \<Rightarrow> Inr (desc, k))"

definition order_by ::
  "(string \<Rightarrow> 'a sort_key option) \<Rightarrow> string list \<Rightarrow> 'a queryset \<Rightarrow> exn + 'a queryset" where
  "order_by fld terms qs =
     (case collect (map (resolve_term fld) terms) of
        Inl e \<Rightarrow> Inl e
      | Inr ks \<Rightarrow> Inr (qs\<lparr>qs_rows := sort_by (term_le ks) (qs_rows qs)\<rparr>))"

subsection \<open>What the object-relational mapper knows about a model\<close>

text \<open>
  Per model: the primary key, the columns a query can order by, the values a search
  lookup reaches from a row (one per related row, \<open>None\<close> alone when a relation is empty,
  as a left join gives), the related ids a many-to-many filter joins, and the writes
  \<^verbatim>\<open>instance.save()\<close> and \<^verbatim>\<open>instance.delete()\<close>.
\<close>

record 'a model_meta =
  meta_pk :: "'a \<Rightarrow> int"
  meta_field :: "string \<Rightarrow> 'a sort_key option"
  meta_lookup :: "db \<Rightarrow> string \<Rightarrow> ('a \<Rightarrow> string option list) option"
  meta_related :: "string \<Rightarrow> ('a \<Rightarrow> int list) option"
  meta_save :: "'a \<Rightarrow> db \<Rightarrow> db"
  meta_delete :: "'a \<Rightarrow> db \<Rightarrow> db"

definition attr_table :: "attr_model \<Rightarrow> db \<Rightarrow> attr list" where
  "attr_table m d = (case m of Tag \<Rightarrow> db_tags d | Ingredient \<Rightarrow> db_ingredients d)"

definition recipe_links :: "attr_model \<Rightarrow> recipe \<Rightarrow> int list" where
  "recipe_links m r = (case m of Tag \<Rightarrow> recipe_tags r | Ingredient \<Rightarrow> recipe_ingredients r)"

definition replace_row :: "('a \<Rightarrow> int) \<Rightarrow> 'a \<Rightarrow> 'a list \<Rightarrow> 'a list" where
  "replace_row pk x rows = map (\<lambda>y. if pk y = pk x then x else y) rows"

definition attr_save :: "attr_model \<Rightarrow> attr \<Rightarrow> db \<Rightarrow> db" where
  "attr_save m x d =
     (case m of
        Tag \<Rightarrow> d\<lparr>db_tags := replace_row attr_pk x (db_tags d)\<rparr>
      | Ingredient \<Rightarrow> d\<lparr>db_ingredients := replace_row attr_pk x (db_ingredients d)\<rparr>)"

text \<open>Deleting a tag or ingredient also deletes its rows of the many-to-many table.\<close>

definition attr_delete :: "attr_model \<Rightarrow> attr \<Rightarrow> db \<Rightarrow> db" where
  "attr_delete m x d =
     (case m of
        Tag \<Rightarrow> d\<lparr>db_tags := filter (\<lambda>y. attr_pk y \<noteq> attr_pk x) (db_tags d),
                 db_recipes := map (\<lambda>r. r\<lparr>recipe_tags := filter (\<lambda>i. i \<noteq> attr_pk x) (recipe_tags r)\<rparr>)
                                 (db_recipes d)\<rparr>
      | Ingredient \<Rightarrow>
          d\<lparr>db_ingredients := filter (\<lambda>y. attr_pk y \<noteq> attr_pk x) (db_ingredients d),
            db_recipes := map (\<lambda>r. r\<lparr>recipe_ingredients :=
                                        filter (\<lambda>i. i \<noteq> attr_pk x) (recipe_ingredients r)\<rparr>)
                            (db_recipes d)\<rparr>)"

definition attr_meta :: "attr_model \<Rightarrow> attr model_meta" where
  "attr_meta m =
     \<lparr>meta_pk = attr_pk,
      meta_field = (\<lambda>f. if f = ''id'' \<or> f = ''pk'' then Some (IntKey attr_pk)
                        else if f = ''user'' then Some (IntKey attr_user)
                        else if f = ''name'' then Some (StrKey attr_name) else None),
      meta_lookup = (\<lambda>d f. if f = ''name'' then Some (\<lambda>x. [Some (attr_name x)]) else None),
      meta_related = (\<lambda>f. None),
      meta_save = attr_save m,
      meta_delete = attr_delete m\<rparr>"

definition related_names :: "attr list \<Rightarrow> int list \<Rightarrow> string option list" where
  "related_names table ids =
     (case concat (map (\<lambda>i. map attr_name (filter (\<lambda>t. attr_pk t = i) table)) ids) of
        [] \<Rightarrow> [None]
      | ns \<Rightarrow> map Some ns)"

definition recipe_meta :: "recipe model_meta" where
  "recipe_meta =
     \<lparr>meta_pk = recipe_pk,
      meta_field = (\<lambda>f. if f = ''id'' \<or> f = ''pk'' then Some (IntKey recipe_pk)
                        else if f = ''user'' then Some (IntKey recipe_user)
                        else if f = ''title'' then Some (StrKey recipe_title)
                        else if f = ''description'' then Some (StrKey recipe_description)
                        else if f = ''time_minutes'' then Some (IntKey recipe_time_minutes)
                        else if f = ''price'' then Some (IntKey recipe_price) else None),
      meta_lookup = (\<lambda>d f.
         if f = ''title'' then Some (\<lambda>r. [Some (recipe_title r)])
         else if f = ''description'' then Some (\<lambda>r. [Some (recipe_description r)])
         else if f = ''tags__name'' then Some (\<lambda>r. related_names (db_tags d) (recipe_tags r))
         else if f = ''ingredients__name''
           then Some (\<lambda>r. related_names (db_ingredients d) (recipe_ingredients r))
         else None),
      meta_related = (\<lambda>f. if f = ''tags__id'' then Some recipe_tags
                          else if f = ''ingredients__id'' then Some recipe_ingredients else None),
      meta_save = (\<lambda>x d. d\<lparr>db_recipes := replace_row recipe_pk x (db_recipes d)\<rparr>),
      meta_delete = (\<lambda>x d. d\<lparr>db_recipes := filter (\<lambda>y. recipe_pk y \<noteq> recipe_pk x) (db_recipes d)\<rparr>)\<rparr>"

section \<open>The framework's request pipeline\<close>

subsection \<open>Authentication and permissions\<close>

text \<open>The authenticator the views name, and any other class the project's settings may
  name, given by its \<^verbatim>\<open>authenticate\<close> and by whether it has an \<^verbatim>\<open>authenticate_header\<close>.\<close>

datatype auth_class =
    TokenAuthentication
  | OtherAuthentication "db \<Rightarrow> request \<Rightarrow> exn + user option" bool

datatype perm_class = IsAuthenticated | AllowAny

text \<open>\<^verbatim>\<open>TokenAuthentication.authenticate_credentials\<close>: the token row, its user, who must be
  active.\<close>

definition authenticate_credentials :: "db \<Rightarrow> string \<Rightarrow> exn + user" where
  "authenticate_credentials d key =
     (case map_of (db_tokens d) key of
        None \<Rightarrow> Inl (AuthenticationFailed ''Invalid token.'')
      | Some uid \<Rightarrow>
          (case find (\<lambda>u. user_pk u = uid) (db_users d) of
             None \<Rightarrow> Inl (AuthenticationFailed ''Invalid token.'')
           | Some u \<Rightarrow> if user_is_active u then Inr u
                       else Inl (AuthenticationFailed ''User inactive or deleted.'')))"

text \<open>\<^verbatim>\<open>TokenAuthentication.authenticate\<close>: a header of another scheme is not this
  authenticator's; keyword and key are exactly two words.\<close>

definition token_authenticate :: "db \<Rightarrow> request \<Rightarrow> exn + user option" where
  "token_authenticate d req =
     (case auth_header req of
        [] \<Rightarrow> Inr None
      | kw # rest \<Rightarrow>
          if map lower_char kw \<noteq> ''token'' then Inr None
          else (case rest of
                  [] \<Rightarrow> Inl (AuthenticationFailed ''Invalid token header. No credentials provided.'')
                | [key] \<Rightarrow> (case authenticate_credentials d key of
                               Inl e \<Rightarrow> Inl e | Inr u \<Rightarrow> Inr (Some u))
                | _ \<Rightarrow> Inl (AuthenticationFailed
                              ''Invalid token header. Token string should not contain spaces.'')))"

fun authenticate_with :: "auth_class \<Rightarrow> db \<Rightarrow> request \<Rightarrow> exn + user option" where
  "authenticate_with TokenAuthentication d req = token_authenticate d req"
| "authenticate_with (OtherAuthentication authenticate hdr) d req = authenticate d req"

fun perform_authentication :: "auth_class list \<Rightarrow> db \<Rightarrow> request \<Rightarrow> exn + user option" where
  "perform_authentication [] d req = Inr None"
| "perform_authentication (a # as) d req =
     (case authenticate_with a d req of
        Inl e \<Rightarrow> Inl e
      | Inr (Some u) \<Rightarrow> Inr (Some u)
      | Inr None \<Rightarrow> perform_authentication as d req)"

fun has_permission :: "perm_class \<Rightarrow> request \<Rightarrow> bool" where
  "has_permission IsAuthenticated req = (req_user req \<noteq> None)"
| "has_permission AllowAny req = True"

text \<open>\<^verbatim>\<open>APIView.check_permissions\<close> with \<^verbatim>\<open>permission_denied\<close>: a request that no
  authenticator recognised is "not authenticated", any other is "permission denied".\<close>

fun check_permissions :: "perm_class list \<Rightarrow> auth_class list \<Rightarrow> request \<Rightarrow> exn + unit" where
  "check_permissions [] authn req = Inr ()"
| "check_permissions (p # ps) authn req =
     (if has_permission p req then check_permissions ps authn req
      else if authn \<noteq> [] \<and> req_user req = None then Inl NotAuthenticated
      else Inl PermissionDenied)"

text \<open>\<^verbatim>\<open>APIView.handle_exception\<close> with the default exception handler: the framework's
  own exceptions and \<^verbatim>\<open>Http404\<close> become responses, anything else is raised again.\<close>

definition authenticate_header :: "auth_class list \<Rightarrow> bool" where
  "authenticate_header authn =
     (case authn of
        [] \<Rightarrow> False
      | TokenAuthentication # _ \<Rightarrow> True
      | OtherAuthentication authenticate hdr # _ \<Rightarrow> hdr)"

definition handle_exception :: "auth_class list \<Rightarrow> exn \<Rightarrow> exn + response" where
  "handle_exception authn exc =
     (case exc of
        NotAuthenticated \<Rightarrow>
          Inr (Response (Failure exc)
                 (if authenticate_header authn then HTTP_401_UNAUTHORIZED else HTTP_403_FORBIDDEN))
      | AuthenticationFailed msg \<Rightarrow>
          Inr (Response (Failure exc)
                 (if authenticate_header authn then HTTP_401_UNAUTHORIZED else HTTP_403_FORBIDDEN))
      | PermissionDenied \<Rightarrow> Inr (Response (Failure exc) HTTP_403_FORBIDDEN)
      | Http404 \<Rightarrow> Inr (Response (Failure exc) HTTP_404_NOT_FOUND)
      | ValidationError errors \<Rightarrow> Inr (Response (Detail errors) HTTP_400_BAD_REQUEST)
      | _ \<Rightarrow> Inl exc)"

text \<open>\<^verbatim>\<open>APIView.dispatch\<close>: authentication, permissions, the handler; an exception at any
  step goes to \<open>handle_exception\<close> and leaves the database as it was. \<open>Inl\<close> in the
  result is an exception that leaves the view.\<close>

type_synonym handler = "db \<Rightarrow> request \<Rightarrow> exn + (response \<times> db)"

definition dispatch ::
  "auth_class list \<Rightarrow> perm_class list \<Rightarrow> handler \<Rightarrow> db \<Rightarrow> request \<Rightarrow> (exn + response) \<times> db" where
  "dispatch authn perms h d req =
     (case perform_authentication authn d req of
        Inl e \<Rightarrow> (handle_exception authn e, d)
      | Inr u \<Rightarrow>
          (let request = req\<lparr>req_user := u\<rparr> in
           case check_permissions perms authn request of
             Inl e \<Rightarrow> (handle_exception authn e, d)
           | Inr _ \<Rightarrow>
               (case h d request of
                  Inl e \<Rightarrow> (handle_exception authn e, d)
                | Inr (resp, d') \<Rightarrow> (Inr resp, d'))))"

subsection \<open>Filter backends\<close>

datatype filter_backend = SearchFilter | OrderingFilter | DjangoFilterBackend

text \<open>A declared filter of a filter set: \<^verbatim>\<open>NumberInFilter(field_name, lookup_expr)\<close>.\<close>

datatype declared_filter = NumberInFilter string string

type_synonym filterset = "(string \<times> declared_filter) list"

text \<open>What a view class declares, and its \<^verbatim>\<open>get_queryset\<close> method.\<close>

record 'a view =
  view_meta :: "'a model_meta"
  authentication_classes :: "auth_class list"
  permission_classes :: "perm_class list"
  filter_backends :: "filter_backend list"
  filterset_class :: "filterset option"
  search_fields :: "string list"
  ordering_fields :: "string list"
  ordering :: "string list"
  get_queryset :: "db \<Rightarrow> request \<Rightarrow> exn + 'a queryset"

text \<open>\<^verbatim>\<open>OrderingFilter\<close>: the comma-separated terms of \<^verbatim>\<open>ordering\<close> that name a field of
  \<open>ordering_fields\<close> (with or without a leading minus); the view's default when none is
  left.\<close>

definition term_valid :: "string list \<Rightarrow> string \<Rightarrow> bool" where
  "term_valid valid_fields term =
     ((if startswith term ''-'' then tl term else term) \<in> set valid_fields)"

definition remove_invalid_fields :: "'a view \<Rightarrow> string list \<Rightarrow> string list" where
  "remove_invalid_fields v terms = filter (term_valid (ordering_fields v)) terms"

definition get_ordering :: "'a view \<Rightarrow> request \<Rightarrow> string list" where
  "get_ordering v req =
     (case qp_get (query_params req) ''ordering'' of
        None \<Rightarrow> ordering v
      | Some params \<Rightarrow>
          if params = [] then ordering v
          else (let terms = map str_strip (split_on (CHR '','') params);
                    ord = remove_invalid_fields v terms
                in if ord \<noteq> [] then ord else ordering v))"

definition ordering_filter_queryset ::
  "'a view \<Rightarrow> request \<Rightarrow> 'a queryset \<Rightarrow> exn + 'a queryset" where
  "ordering_filter_queryset v req qs =
     (let ord = get_ordering v req
      in if ord \<noteq> [] then order_by (meta_field (view_meta v)) ord qs else Inr qs)"

text \<open>\<^verbatim>\<open>SearchFilter\<close>: the terms of \<^verbatim>\<open>search\<close> (split at whitespace and commas); a row
  stays when one of its joined rows has, for every term, a search field containing the
  term, case-insensitively. No row is duplicated.\<close>

definition get_search_terms :: "request \<Rightarrow> string list" where
  "get_search_terms req =
     (let params = (case qp_get (query_params req) ''search'' of None \<Rightarrow> [] | Some s \<Rightarrow> s);
          params = filter (\<lambda>c. c \<noteq> CHR 0x00) params;
          params = map (\<lambda>c. if c = CHR '','' then CHR '' '' else c) params
      in split_ws params)"

definition row_matches :: "string list \<Rightarrow> string option list \<Rightarrow> bool" where
  "row_matches terms row =
     list_all (\<lambda>t. list_ex (\<lambda>v. case v of None \<Rightarrow> False | Some s \<Rightarrow> icontains s t) row) terms"

definition search_filter_queryset ::
  "'a view \<Rightarrow> db \<Rightarrow> request \<Rightarrow> 'a queryset \<Rightarrow> exn + 'a queryset" where
  "search_filter_queryset v d req qs =
     (let terms = get_search_terms req
      in if search_fields v = [] \<or> terms = [] then Inr qs
         else (case collect (map (\<lambda>f. case meta_lookup (view_meta v) d f of
                                          None \<Rightarrow> Inl (FieldError f) | Some g \<Rightarrow> Inr g)
                                 (search_fields v)) of
                 Inl e \<Rightarrow> Inl e
               | Inr gs \<Rightarrow>
                   Inr (qs_filter (\<lambda>x. list_ex (row_matches terms)
                                         (product_lists (map (\<lambda>g. g x) gs))) qs)))"

text \<open>\<^verbatim>\<open>DjangoFilterBackend\<close>: the filter set's form cleans every declared parameter
  (a comma-separated list, each value by the number field); any error is a validation
  error; then each filter with a non-empty value joins the related ids and keeps the rows
  where one is in the list.\<close>

definition csv_clean :: "runtime \<Rightarrow> request \<Rightarrow> string \<Rightarrow> string + int option list option" where
  "csv_clean rt req name =
     (case qp_get (query_params req) name of
        None \<Rightarrow> Inr None
      | Some s \<Rightarrow>
          if s = [] then Inr (Some [])
          else (case collect (map (number_field rt) (split_on (CHR '','') s)) of
                  Inl e \<Rightarrow> Inl e | Inr vs \<Rightarrow> Inr (Some vs)))"

definition form_errors :: "runtime \<Rightarrow> filterset \<Rightarrow> request \<Rightarrow> json" where
  "form_errors rt fs req =
     concat (map (\<lambda>(name, f). case csv_clean rt req name of Inl e \<Rightarrow> [(name, e)] | Inr _ \<Rightarrow> [])
               fs)"

definition in_values :: "int option list \<Rightarrow> int list" where
  "in_values vs = concat (map (\<lambda>v. case v of None \<Rightarrow> [] | Some n \<Rightarrow> [n]) vs)"

fun filterset_qs ::
  "runtime \<Rightarrow> 'a model_meta \<Rightarrow> filterset \<Rightarrow> request \<Rightarrow> 'a queryset \<Rightarrow> exn + 'a queryset" where
  "filterset_qs rt meta [] req qs = Inr qs"
| "filterset_qs rt meta ((name, NumberInFilter field_name lookup_expr) # fs) req qs =
     (case csv_clean rt req name of
        Inr (Some (v # vs)) \<Rightarrow>
          (case meta_related meta field_name of
             None \<Rightarrow> Inl (FieldError field_name)
           | Some rel \<Rightarrow>
               if lookup_expr = ''in''
               then filterset_qs rt meta fs req
                      (qs_join (\<lambda>x. filter (\<lambda>i. i \<in> set (in_values (v # vs))) (rel x)) qs)
               else Inl (FieldError lookup_expr))
      | _ \<Rightarrow> filterset_qs rt meta fs req qs)"

definition django_filter_queryset ::
  "runtime \<Rightarrow> 'a view \<Rightarrow> request \<Rightarrow> 'a queryset \<Rightarrow> exn + 'a queryset" where
  "django_filter_queryset rt v req qs =
     (case filterset_class v of
        None \<Rightarrow> Inr qs
      | Some fs \<Rightarrow>
          if form_errors rt fs req \<noteq> [] then Inl (ValidationError (form_errors rt fs req))
          else filterset_qs rt (view_meta v) fs req qs)"

fun backend_filter_queryset ::
  "runtime \<Rightarrow> filter_backend \<Rightarrow> 'a view \<Rightarrow> db \<Rightarrow> request \<Rightarrow> 'a queryset
     \<Rightarrow> exn + 'a queryset" where
  "backend_filter_queryset rt SearchFilter v d req qs = search_filter_queryset v d req qs"
| "backend_filter_queryset rt OrderingFilter v d req qs = ordering_filter_queryset v req qs"
| "backend_filter_queryset rt DjangoFilterBackend v d req qs = django_filter_queryset rt v req qs"

text \<open>\<^verbatim>\<open>GenericAPIView.filter_queryset\<close>: every backend of \<open>filter_backends\<close>, in order.\<close>

fun apply_backends ::
  "runtime \<Rightarrow> filter_backend list \<Rightarrow> 'a view \<Rightarrow> db \<Rightarrow> request \<Rightarrow> 'a queryset
     \<Rightarrow> exn + 'a queryset" where
  "apply_backends rt [] v d req qs = Inr qs"
| "apply_backends rt (b # bs) v d req qs =
     (case backend_filter_queryset rt b v d req qs of
        Inl e \<Rightarrow> Inl e
      | Inr qs' \<Rightarrow> apply_backends rt bs v d req qs')"

definition filter_queryset ::
  "runtime \<Rightarrow> 'a view \<Rightarrow> db \<Rightarrow> request \<Rightarrow> 'a queryset \<Rightarrow> exn + 'a queryset" where
  "filter_queryset rt v d req qs = apply_backends rt (filter_backends v) v d req qs"

text \<open>\<^verbatim>\<open>GenericAPIView.get_object\<close>: the row of the filtered queryset with the primary key
  of the URL; a key that is no integer, or no such row, is \<^verbatim>\<open>Http404\<close>.\<close>

definition get_object :: "runtime \<Rightarrow> 'a view \<Rightarrow> db \<Rightarrow> request \<Rightarrow> string \<Rightarrow> exn + 'a" where
  "get_object rt v d req pk =
     (case get_queryset v d req of
        Inl e \<Rightarrow> Inl e
      | Inr qs0 \<Rightarrow>
          (case filter_queryset rt v d req qs0 of
             Inl e \<Rightarrow> Inl e
           | Inr qs \<Rightarrow>
               (case py_int rt pk of
                  None \<Rightarrow> Inl Http404
                | Some k \<Rightarrow>
                    (case filter (\<lambda>x. meta_pk (view_meta v) x = k) (fetch qs) of
                       [] \<Rightarrow> Inl Http404
                     | [obj] \<Rightarrow> Inr obj
                     | _ \<Rightarrow> Inl MultipleObjectsReturned))))"

subsection \<open>Serializers, pagination and the generic actions\<close>

text \<open>
  \<^verbatim>\<open>recipe/serializers.py\<close> and \<^verbatim>\<open>user/serializers.py\<close> are missing, so a serializer class
  is a parameter: its output for an instance, its validation of a payload against an
  instance (\<open>True\<close> for a partial update; \<open>Inl\<close> the errors, \<open>Inr\<close> the validated data),
  and the instance its \<^verbatim>\<open>update\<close> builds, which \<^verbatim>\<open>save()\<close> then writes.
\<close>

record 'a serializer =
  to_representation :: "'a \<Rightarrow> json"
  run_validation :: "bool \<Rightarrow> 'a \<Rightarrow> json \<Rightarrow> json + json"
  ser_update :: "'a \<Rightarrow> json \<Rightarrow> 'a"

text \<open>The pagination class is a setting of the project, which is missing: a parameter
  that picks the page of the rows and its envelope, \<open>None\<close> when pagination is off.\<close>

type_synonym 'a paginator = "request \<Rightarrow> 'a list \<Rightarrow> exn + ('a list \<times> json) option"

text \<open>The framework's mixins (\<^verbatim>\<open>rest_framework.mixins\<close>), over the view's
  \<^verbatim>\<open>get_object\<close> and the model's \<^verbatim>\<open>save\<close> and \<^verbatim>\<open>delete\<close>. The update mixin also
  empties the instance's prefetch cache, which no response and no row shows; that step is
  left out.\<close>

definition perform_update :: "('a \<Rightarrow> db \<Rightarrow> db) \<Rightarrow> 'a serializer \<Rightarrow> 'a \<Rightarrow> json \<Rightarrow> db \<Rightarrow> 'a \<times> db" where
  "perform_update save ser instance validated d =
     (let instance' = ser_update ser instance validated in (instance', save instance' d))"

definition UpdateModelMixin_update ::
  "(db \<Rightarrow> request \<Rightarrow> exn + 'a) \<Rightarrow> ('a \<Rightarrow> db \<Rightarrow> db) \<Rightarrow> 'a serializer \<Rightarrow> bool \<Rightarrow> handler" where
  "UpdateModelMixin_update get_obj save ser partial d req =
     (case get_obj d req of
        Inl e \<Rightarrow> Inl e
      | Inr instance \<Rightarrow>
          (case run_validation ser partial instance (data req) of
             Inl errors \<Rightarrow> Inl (ValidationError errors)
           | Inr validated \<Rightarrow>
               (case perform_update save ser instance validated d of
                  (instance', d') \<Rightarrow>
                    Inr (Response (Object (to_representation ser instance')) HTTP_200_OK, d'))))"

definition UpdateModelMixin_partial_update ::
  "(db \<Rightarrow> request \<Rightarrow> exn + 'a) \<Rightarrow> ('a \<Rightarrow> db \<Rightarrow> db) \<Rightarrow> 'a serializer \<Rightarrow> handler" where
  "UpdateModelMixin_partial_update get_obj save ser d req =
     UpdateModelMixin_update get_obj save ser True d req"

definition perform_destroy :: "('a \<Rightarrow> db \<Rightarrow> db) \<Rightarrow> 'a \<Rightarrow> db \<Rightarrow> db" where
  "perform_destroy delete instance d = delete instance d"

definition DestroyModelMixin_destroy ::
  "(db \<Rightarrow> request \<Rightarrow> exn + 'a) \<Rightarrow> ('a \<Rightarrow> db \<Rightarrow> db) \<Rightarrow> handler" where
  "DestroyModelMixin_destroy get_obj delete d req =
     (case get_obj d req of
        Inl e \<Rightarrow> Inl e
      | Inr instance \<Rightarrow> Inr (Response Empty HTTP_204_NO_CONTENT, perform_destroy delete instance d))"

definition RetrieveModelMixin_retrieve ::
  "(db \<Rightarrow> request \<Rightarrow> exn + 'a) \<Rightarrow> 'a serializer \<Rightarrow> handler" where
  "RetrieveModelMixin_retrieve get_obj ser d req =
     (case get_obj d req of
        Inl e \<Rightarrow> Inl e
      | Inr instance \<Rightarrow> Inr (Response (Object (to_representation ser instance)) HTTP_200_OK, d))"

definition paginated ::
  "'a serializer \<Rightarrow> 'a paginator \<Rightarrow> request \<Rightarrow> 'a list \<Rightarrow> exn + response" where
  "paginated ser pag req rows =
     (case pag req rows of
        Inl e \<Rightarrow> Inl e
      | Inr (Some (page, envelope)) \<Rightarrow>
          Inr (Response (Page envelope (map (to_representation ser) page)) HTTP_200_OK)
      | Inr None \<Rightarrow> Inr (Response (Rows (map (to_representation ser) rows)) HTTP_200_OK))"

definition ListModelMixin_list ::
  "runtime \<Rightarrow> 'a view \<Rightarrow> 'a serializer \<Rightarrow> 'a paginator \<Rightarrow> handler" where
  "ListModelMixin_list rt v ser pag d req =
     (case get_queryset v d req of
        Inl e \<Rightarrow> Inl e
      | Inr qs0 \<Rightarrow>
          (case filter_queryset rt v d req qs0 of
             Inl e \<Rightarrow> Inl e
           | Inr qs \<Rightarrow>
               (case paginated ser pag req (fetch qs) of
                  Inl e \<Rightarrow> Inl e
                | Inr resp \<Rightarrow> Inr (resp, d))))"

section \<open>recipe/filters.py\<close>

definition RecipeFilter :: filterset where
  "RecipeFilter =
     [(''tags'', NumberInFilter ''tags__id'' ''in''),
      (''ingredients'', NumberInFilter ''ingredients__id'' ''in'')]"

text \<open>The names the module binds, in the order it binds them.\<close>

datatype member = Imported | FilterClass | FilterSetClass filterset

definition recipe_filters :: "(string \<times> member) list" where
  "recipe_filters =
     [(''filters'', Imported),
      (''Recipe'', Imported),
      (''NumberInFilter'', FilterClass),
      (''RecipeFilter'', FilterSetClass RecipeFilter)]"

text \<open>Attribute access on a module: a name it does not bind raises \<^verbatim>\<open>AttributeError\<close>.\<close>

definition module_getattr :: "string \<Rightarrow> (string \<times> 'm) list \<Rightarrow> string \<Rightarrow> exn + 'm" where
  "module_getattr modname ns name =
     (case map_of ns name of None \<Rightarrow> Inl (AttributeError modname name) | Some m \<Rightarrow> Inr m)"

section \<open>recipe/views.py\<close>

subsection \<open>RecipeViewSet\<close>

definition RecipeViewSet_get_queryset :: "db \<Rightarrow> request \<Rightarrow> exn + recipe queryset" where
  "RecipeViewSet_get_queryset d req =
     (let queryset = objects_all (db_recipes d)
      in case req_user req of
           None \<Rightarrow> Inl TypeError
         | Some u \<Rightarrow> Inr (qs_distinct_on (qs_filter (\<lambda>r. recipe_user r = user_pk u) queryset)))"

text \<open>Evaluating the class body. \<^verbatim>\<open>filterset_class = my_filters.RecipeViewSetFilter\<close>
  looks the name up in \<^verbatim>\<open>recipe.filters\<close>; the adjacent literals of \<open>ordering_fields\<close>
  are one string.\<close>

definition RecipeViewSet :: "exn + recipe view" where
  "RecipeViewSet =
     (case module_getattr ''recipe.filters'' recipe_filters ''RecipeViewSetFilter'' of
        Inl e \<Rightarrow> Inl e
      | Inr (FilterSetClass fs) \<Rightarrow>
          Inr \<lparr>view_meta = recipe_meta,
               authentication_classes = [TokenAuthentication],
               permission_classes = [IsAuthenticated],
               filter_backends = [OrderingFilter, SearchFilter, DjangoFilterBackend],
               filterset_class = Some fs,
               search_fields = [''title'', ''description'', ''tags__name'', ''ingredients__name''],
               ordering_fields = [''id'', ''time_minutes'' @ ''price''],
               ordering = [''-id''],
               get_queryset = RecipeViewSet_get_queryset\<rparr>
      | Inr _ \<Rightarrow> Inl TypeError)"

record recipe_serializers =
  RecipeSerializer :: "recipe serializer"
  RecipeDetailSerializer :: "recipe serializer"
  RecipeImageSerializer :: "recipe serializer"

definition get_serializer_class :: "recipe_serializers \<Rightarrow> string \<Rightarrow> recipe serializer" where
  "get_serializer_class sers action =
     (if action = ''list'' then RecipeSerializer sers
      else if action = ''upload_image'' then RecipeImageSerializer sers
      else RecipeDetailSerializer sers)"

definition upload_image ::
  "runtime \<Rightarrow> recipe view \<Rightarrow> recipe_serializers \<Rightarrow> string \<Rightarrow> handler" where
  "upload_image rt v sers pk d req =
     (case get_object rt v d req pk of
        Inl e \<Rightarrow> Inl e
      | Inr recipe \<Rightarrow>
          (let serializer = get_serializer_class sers ''upload_image''
           in case run_validation serializer False recipe (data req) of
                Inr validated \<Rightarrow>
                  (let instance = ser_update serializer recipe validated
                   in Inr (Response (Object (to_representation serializer instance)) HTTP_200_OK,
                           meta_save (view_meta v) instance d))
              | Inl errors \<Rightarrow> Inr (Response (Detail errors) HTTP_400_BAD_REQUEST, d)))"

text \<open>The rows a list action serialises: the view's queryset through its filter
  backends.\<close>

definition list_rows :: "runtime \<Rightarrow> 'a view \<Rightarrow> db \<Rightarrow> request \<Rightarrow> exn + 'a list" where
  "list_rows rt v d req =
     (case get_queryset v d req of
        Inl e \<Rightarrow> Inl e
      | Inr qs0 \<Rightarrow>
          (case filter_queryset rt v d req qs0 of Inl e \<Rightarrow> Inl e | Inr qs \<Rightarrow> Inr (fetch qs)))"

text \<open>The actions of the recipe viewset: the list and detail actions \<^verbatim>\<open>ModelViewSet\<close>
  brings, and \<^verbatim>\<open>upload_image\<close>.\<close>

datatype recipe_action =
    RecipeList
  | RecipeRetrieve
  | RecipeUpdate
  | RecipePartialUpdate
  | RecipeDestroy
  | RecipeUploadImage

fun recipe_handler ::
  "runtime \<Rightarrow> recipe view \<Rightarrow> recipe_serializers \<Rightarrow> recipe paginator \<Rightarrow> recipe_action \<Rightarrow> string
     \<Rightarrow> handler" where
  "recipe_handler rt v sers pag RecipeList pk =
     ListModelMixin_list rt v (get_serializer_class sers ''list'') pag"
| "recipe_handler rt v sers pag RecipeRetrieve pk =
     RetrieveModelMixin_retrieve (\<lambda>d req. get_object rt v d req pk)
       (get_serializer_class sers ''retrieve'')"
| "recipe_handler rt v sers pag RecipeUpdate pk =
     UpdateModelMixin_update (\<lambda>d req. get_object rt v d req pk) (meta_save (view_meta v))
       (get_serializer_class sers ''update'') False"
| "recipe_handler rt v sers pag RecipePartialUpdate pk =
     UpdateModelMixin_partial_update (\<lambda>d req. get_object rt v d req pk) (meta_save (view_meta v))
       (get_serializer_class sers ''partial_update'')"
| "recipe_handler rt v sers pag RecipeDestroy pk =
     DestroyModelMixin_destroy (\<lambda>d req. get_object rt v d req pk) (meta_delete (view_meta v))"
| "recipe_handler rt v sers pag RecipeUploadImage pk = upload_image rt v sers pk"

text \<open>A request routed to the recipe viewset. The class is what evaluating its body gave
  when the module was loaded; an exception raised there is raised for every request, and
  nothing is written.\<close>

definition RecipeViewSet_request ::
  "runtime \<Rightarrow> recipe_serializers \<Rightarrow> recipe paginator \<Rightarrow> recipe_action \<Rightarrow> string \<Rightarrow> db \<Rightarrow> request
     \<Rightarrow> (exn + response) \<times> db" where
  "RecipeViewSet_request rt sers pag a pk d req =
     (case RecipeViewSet of
        Inl e \<Rightarrow> (Inl e, d)
      | Inr v \<Rightarrow>
          dispatch (authentication_classes v) (permission_classes v)
            (recipe_handler rt v sers pag a pk) d req)"

subsection \<open>BaseRecipeAttrViewSet, TagViewSet, IngredientViewSet\<close>

text \<open>\<^verbatim>\<open>filter(recipe__isnull=False)\<close>: the join to the many-to-many table, one row per
  recipe the tag or ingredient is attached to.\<close>

definition attached_links :: "attr_model \<Rightarrow> db \<Rightarrow> attr \<Rightarrow> int list" where
  "attached_links m d x =
     concat (map (\<lambda>r. filter (\<lambda>i. i = attr_pk x) (recipe_links m r)) (db_recipes d))"

text \<open>\<^verbatim>\<open>int(self.request.query_params.get('assigned_only', 0))\<close>; \<open>None\<close> is the
  \<^verbatim>\<open>ValueError\<close> of \<^verbatim>\<open>int()\<close>.\<close>

definition assigned_only_param :: "runtime \<Rightarrow> request \<Rightarrow> int option" where
  "assigned_only_param rt req =
     (case qp_get (query_params req) ''assigned_only'' of None \<Rightarrow> Some 0 | Some s \<Rightarrow> py_int rt s)"

definition BaseRecipeAttrViewSet_get_queryset ::
  "runtime \<Rightarrow> attr_model \<Rightarrow> db \<Rightarrow> request \<Rightarrow> exn + attr queryset" where
  "BaseRecipeAttrViewSet_get_queryset rt m d req =
     (case assigned_only_param rt req of
        None \<Rightarrow> Inl ValueError
      | Some n \<Rightarrow>
          (let assigned_only = (n \<noteq> 0);
               queryset = objects_all (attr_table m d);
               queryset = (if assigned_only then qs_join (attached_links m d) queryset
                           else queryset)
           in case req_user req of
                None \<Rightarrow> Inl TypeError
              | Some u \<Rightarrow> Inr (qs_distinct_on (qs_filter (\<lambda>x. attr_user x = user_pk u) queryset))))"

definition BaseRecipeAttrViewSet :: "runtime \<Rightarrow> attr_model \<Rightarrow> attr view" where
  "BaseRecipeAttrViewSet rt m =
     \<lparr>view_meta = attr_meta m,
      authentication_classes = [TokenAuthentication],
      permission_classes = [IsAuthenticated],
      filter_backends = [SearchFilter, OrderingFilter],
      filterset_class = None,
      search_fields = [''name''],
      ordering_fields = [''id'', ''name''],
      ordering = [''-name''],
      get_queryset = BaseRecipeAttrViewSet_get_queryset rt m\<rparr>"

definition TagViewSet :: "runtime \<Rightarrow> attr view" where
  "TagViewSet rt = BaseRecipeAttrViewSet rt Tag"

definition IngredientViewSet :: "runtime \<Rightarrow> attr view" where
  "IngredientViewSet rt = BaseRecipeAttrViewSet rt Ingredient"

subsection \<open>BaseRecipeAttrMixClearViewSet, TagNoMixViewSet, IngredientNoMixViewSet\<close>

definition MixClear_get_queryset ::
  "runtime \<Rightarrow> attr_model \<Rightarrow> db \<Rightarrow> request \<Rightarrow> exn + attr queryset" where
  "MixClear_get_queryset rt m d req =
     (case assigned_only_param rt req of
        None \<Rightarrow> Inl ValueError
      | Some n \<Rightarrow>
          (let assigned_only = (n \<noteq> 0);
               queryset = objects_all (attr_table m d);
               queryset = (if assigned_only then qs_join (attached_links m d) queryset
                           else queryset)
           in case req_user req of
                None \<Rightarrow> Inl TypeError
              | Some u \<Rightarrow> Inr (qs_distinct_on (qs_filter (\<lambda>x. attr_user x = user_pk u) queryset))))"

definition BaseRecipeAttrMixClearViewSet :: "runtime \<Rightarrow> attr_model \<Rightarrow> attr view" where
  "BaseRecipeAttrMixClearViewSet rt m =
     \<lparr>view_meta = attr_meta m,
      authentication_classes = [TokenAuthentication],
      permission_classes = [IsAuthenticated],
      filter_backends = [SearchFilter, OrderingFilter],
      filterset_class = None,
      search_fields = [''name''],
      ordering_fields = [''id'', ''name''],
      ordering = [''-name''],
      get_queryset = MixClear_get_queryset rt m\<rparr>"

definition TagNoMixViewSet :: "runtime \<Rightarrow> attr view" where
  "TagNoMixViewSet rt = BaseRecipeAttrMixClearViewSet rt Tag"

definition IngredientNoMixViewSet :: "runtime \<Rightarrow> attr view" where
  "IngredientNoMixViewSet rt = BaseRecipeAttrMixClearViewSet rt Ingredient"

definition MixClear_update ::
  "runtime \<Rightarrow> attr view \<Rightarrow> attr serializer \<Rightarrow> bool \<Rightarrow> string \<Rightarrow> handler" where
  "MixClear_update rt v ser partial pk d req =
     (case get_object rt v d req pk of
        Inl e \<Rightarrow> Inl e
      | Inr instance \<Rightarrow>
          (case run_validation ser partial instance (data req) of
             Inl errors \<Rightarrow> Inl (ValidationError errors)
           | Inr validated \<Rightarrow>
               (let instance' = ser_update ser instance validated
                in Inr (Response (Object (to_representation ser instance')) HTTP_200_OK,
                        meta_save (view_meta v) instance' d))))"

definition MixClear_partial_update ::
  "runtime \<Rightarrow> attr view \<Rightarrow> attr serializer \<Rightarrow> string \<Rightarrow> handler" where
  "MixClear_partial_update rt v ser pk d req = MixClear_update rt v ser True pk d req"

definition MixClear_destroy :: "runtime \<Rightarrow> attr view \<Rightarrow> string \<Rightarrow> handler" where
  "MixClear_destroy rt v pk d req =
     (case get_object rt v d req pk of
        Inl e \<Rightarrow> Inl e
      | Inr instance \<Rightarrow>
          Inr (Response Empty HTTP_204_NO_CONTENT, meta_delete (view_meta v) instance d))"

definition MixClear_list ::
  "runtime \<Rightarrow> attr view \<Rightarrow> attr serializer \<Rightarrow> attr paginator \<Rightarrow> handler" where
  "MixClear_list rt v ser pag d req =
     (case get_queryset v d req of
        Inl e \<Rightarrow> Inl e
      | Inr qs0 \<Rightarrow>
          (case filter_queryset rt v d req qs0 of
             Inl e \<Rightarrow> Inl e
           | Inr queryset \<Rightarrow>
               (case pag req (fetch queryset) of
                  Inl e \<Rightarrow> Inl e
                | Inr (Some (page, envelope)) \<Rightarrow>
                    Inr (Response (Page envelope (map (to_representation ser) page)) HTTP_200_OK, d)
                | Inr None \<Rightarrow>
                    Inr (Response (Rows (map (to_representation ser) (fetch queryset))) HTTP_200_OK,
                         d))))"

subsection \<open>The four actions of both families, as the router binds them\<close>

datatype action = List | Update | PartialUpdate | Destroy

fun mixin_handler ::
  "runtime \<Rightarrow> attr view \<Rightarrow> attr serializer \<Rightarrow> attr paginator \<Rightarrow> action \<Rightarrow> string \<Rightarrow> handler" where
  "mixin_handler rt v ser pag List pk = ListModelMixin_list rt v ser pag"
| "mixin_handler rt v ser pag Update pk =
     UpdateModelMixin_update (\<lambda>d req. get_object rt v d req pk) (meta_save (view_meta v)) ser False"
| "mixin_handler rt v ser pag PartialUpdate pk =
     UpdateModelMixin_partial_update (\<lambda>d req. get_object rt v d req pk) (meta_save (view_meta v))
       ser"
| "mixin_handler rt v ser pag Destroy pk =
     DestroyModelMixin_destroy (\<lambda>d req. get_object rt v d req pk) (meta_delete (view_meta v))"

fun nomix_handler ::
  "runtime \<Rightarrow> attr view \<Rightarrow> attr serializer \<Rightarrow> attr paginator \<Rightarrow> action \<Rightarrow> string \<Rightarrow> handler" where
  "nomix_handler rt v ser pag List pk = MixClear_list rt v ser pag"
| "nomix_handler rt v ser pag Update pk = MixClear_update rt v ser False pk"
| "nomix_handler rt v ser pag PartialUpdate pk = MixClear_partial_update rt v ser pk"
| "nomix_handler rt v ser pag Destroy pk = MixClear_destroy rt v pk"

definition attr_viewset_request ::
  "runtime \<Rightarrow> attr_model \<Rightarrow> attr serializer \<Rightarrow> attr paginator \<Rightarrow> action \<Rightarrow> string \<Rightarrow> db
     \<Rightarrow> request \<Rightarrow> (exn + response) \<times> db" where
  "attr_viewset_request rt m ser pag a pk d req =
     (let v = BaseRecipeAttrViewSet rt m
      in dispatch (authentication_classes v) (permission_classes v)
           (mixin_handler rt v ser pag a pk) d req)"

definition attr_nomix_viewset_request ::
  "runtime \<Rightarrow> attr_model \<Rightarrow> attr serializer \<Rightarrow> attr paginator \<Rightarrow> action \<Rightarrow> string \<Rightarrow> db
     \<Rightarrow> request \<Rightarrow> (exn + response) \<times> db" where
  "attr_nomix_viewset_request rt m ser pag a pk d req =
     (let v = BaseRecipeAttrMixClearViewSet rt m
      in dispatch (authentication_classes v) (permission_classes v)
           (nomix_handler rt v ser pag a pk) d req)"

text \<open>What the list action of an attribute viewset answers for the rows it has: the
  page of them, or all, in the serializer's rendering; an exception of the paginator goes
  to the exception handler.\<close>

definition list_response ::
  "'a serializer \<Rightarrow> 'a paginator \<Rightarrow> request \<Rightarrow> 'a list \<Rightarrow> db \<Rightarrow> (exn + response) \<times> db" where
  "list_response ser pag req rows d =
     (case paginated ser pag req rows of
        Inl e \<Rightarrow> (handle_exception [TokenAuthentication] e, d)
      | Inr resp \<Rightarrow> (Inr resp, d))"

text \<open>The search backend keeps a tag or ingredient when its name contains every term.\<close>

definition name_matches :: "request \<Rightarrow> attr \<Rightarrow> bool" where
  "name_matches req x = list_all (\<lambda>t. icontains (attr_name x) t) (get_search_terms req)"

section \<open>user/views.py\<close>

definition user_save :: "user \<Rightarrow> db \<Rightarrow> db" where
  "user_save u d = d\<lparr>db_users := replace_row user_pk u (db_users d)\<rparr>"

datatype http_method = GET | PUT | PATCH

subsection \<open>ManageUserView\<close>

text \<open>\<^verbatim>\<open>get_object\<close> returns \<^verbatim>\<open>request.user\<close>. The anonymous user is no row of the user
  table; the view's permission class keeps it from getting here.\<close>

definition ManageUserView_get_object :: "db \<Rightarrow> request \<Rightarrow> exn + user" where
  "ManageUserView_get_object d req =
     (case req_user req of None \<Rightarrow> Inl TypeError | Some u \<Rightarrow> Inr u)"

fun ManageUserView_handler :: "user serializer \<Rightarrow> http_method \<Rightarrow> handler" where
  "ManageUserView_handler ser GET = RetrieveModelMixin_retrieve ManageUserView_get_object ser"
| "ManageUserView_handler ser PUT =
     UpdateModelMixin_update ManageUserView_get_object user_save ser False"
| "ManageUserView_handler ser PATCH =
     UpdateModelMixin_partial_update ManageUserView_get_object user_save ser"

definition ManageUserView ::
  "user serializer \<Rightarrow> http_method \<Rightarrow> db \<Rightarrow> request \<Rightarrow> (exn + response) \<times> db" where
  "ManageUserView ser meth d req =
     dispatch [TokenAuthentication] [IsAuthenticated] (ManageUserView_handler ser meth) d req"

subsection \<open>ManageUserApiView\<close>

definition ManageUserApiView_get :: "user serializer \<Rightarrow> handler" where
  "ManageUserApiView_get ser d req =
     (case req_user req of
        None \<Rightarrow> Inl TypeError
      | Some u \<Rightarrow> Inr (Response (Object (to_representation ser u)) HTTP_200_OK, d))"

definition ManageUserApiView_put :: "user serializer \<Rightarrow> handler" where
  "ManageUserApiView_put ser d req =
     (case req_user req of
        None \<Rightarrow> Inl TypeError
      | Some u \<Rightarrow>
          (case run_validation ser False u (data req) of
             Inl errors \<Rightarrow> Inl (ValidationError errors)
           | Inr validated \<Rightarrow>
               (let u' = ser_update ser u validated
                in Inr (Response (Object (to_representation ser u')) HTTP_200_OK, user_save u' d))))"

definition ManageUserApiView_patch :: "user serializer \<Rightarrow> handler" where
  "ManageUserApiView_patch ser d req =
     (case req_user req of
        None \<Rightarrow> Inl TypeError
      | Some u \<Rightarrow>
          (case run_validation ser True u (data req) of
             Inl errors \<Rightarrow> Inl (ValidationError errors)
           | Inr validated \<Rightarrow>
               (let u' = ser_update ser u validated
                in Inr (Response (Object (to_representation ser u')) HTTP_200_OK, user_save u' d))))"

fun ManageUserApiView_handler :: "user serializer \<Rightarrow> http_method \<Rightarrow> handler" where
  "ManageUserApiView_handler ser GET = ManageUserApiView_get ser"
| "ManageUserApiView_handler ser PUT = ManageUserApiView_put ser"
| "ManageUserApiView_handler ser PATCH = ManageUserApiView_patch ser"

definition ManageUserApiView ::
  "user serializer \<Rightarrow> http_method \<Rightarrow> db \<Rightarrow> request \<Rightarrow> (exn + response) \<times> db" where
  "ManageUserApiView ser meth d req =
     dispatch [TokenAuthentication] [IsAuthenticated] (ManageUserApiView_handler ser meth) d req"

text \<open>What an update of user \<open>u\<close> by a payload comes to: 400 with the serializer's
  errors and no write, or 200 with the updated record, written over the row of that
  primary key.\<close>

definition me_update_outcome :: "user serializer \<Rightarrow> bool \<Rightarrow> user \<Rightarrow> db \<Rightarrow> request \<Rightarrow> (exn + response) \<times> db" where
  "me_update_outcome ser partial u d req =
     (case run_validation ser partial u (data req) of
        Inl errors \<Rightarrow> (Inr (Response (Detail errors) HTTP_400_BAD_REQUEST), d)
      | Inr validated \<Rightarrow>
          (Inr (Response (Object (to_representation ser (ser_update ser u validated))) HTTP_200_OK),
           d\<lparr>db_users := replace_row user_pk (ser_update ser u validated) (db_users d)\<rparr>))"

subsection \<open>ListAllUsersApiView\<close>




section \<open>A small database and its clients\<close>

text \<open>Two users with a token each; the first owns two tags, an ingredient and two
  recipes, the second a tag and a recipe. Concrete serializers stand in for the missing ones.\<close>

definition alice :: user where
  "alice = \<lparr>user_pk = 1, user_email = ''alice@example.com'', user_password = ''pw1'',
            user_is_active = True\<rparr>"

definition bob :: user where
  "bob = \<lparr>user_pk = 2, user_email = ''bob@example.com'', user_password = ''pw2'',
          user_is_active = True\<rparr>"

definition tag_b :: attr where "tag_b = \<lparr>attr_pk = 1, attr_user = 1, attr_name = ''b''\<rparr>"
definition tag_a :: attr where "tag_a = \<lparr>attr_pk = 2, attr_user = 1, attr_name = ''a''\<rparr>"
definition tag_z :: attr where "tag_z = \<lparr>attr_pk = 3, attr_user = 2, attr_name = ''z''\<rparr>"
definition salt :: attr where "salt = \<lparr>attr_pk = 1, attr_user = 1, attr_name = ''salt''\<rparr>"

definition soup :: recipe where
  "soup = \<lparr>recipe_pk = 1, recipe_user = 1, recipe_title = ''Soup'', recipe_description = [],
           recipe_time_minutes = 10, recipe_price = 500, recipe_image = None,
           recipe_tags = [1], recipe_ingredients = [1]\<rparr>"

definition stew :: recipe where
  "stew = \<lparr>recipe_pk = 2, recipe_user = 2, recipe_title = ''Stew'', recipe_description = [],
           recipe_time_minutes = 90, recipe_price = 300, recipe_image = None,
           recipe_tags = [3], recipe_ingredients = []\<rparr>"

definition salad :: recipe where
  "salad = \<lparr>recipe_pk = 3, recipe_user = 1, recipe_title = ''Salad'', recipe_description = [],
            recipe_time_minutes = 5, recipe_price = 700, recipe_image = None,
            recipe_tags = [1], recipe_ingredients = [1]\<rparr>"

definition shop :: db where
  "shop = \<lparr>db_users = [alice, bob],
           db_tokens = [(''tok1'', 1), (''tok2'', 2)],
           db_recipes = [soup, stew, salad],
           db_tags = [tag_b, tag_a, tag_z],
           db_ingredients = [salt]\<rparr>"

definition client :: "string list \<Rightarrow> (string \<times> string) list \<Rightarrow> json \<Rightarrow> request" where
  "client hdr qp payload =
     \<lparr>auth_header = hdr, query_params = qp, data = payload, req_user = None\<rparr>"

definition name_serializer :: "attr serializer" where
  "name_serializer =
     \<lparr>to_representation = (\<lambda>x. [(''name'', attr_name x)]),
      run_validation = (\<lambda>partial x payload.
         case map_of payload ''name'' of
           None \<Rightarrow> if partial then Inr [] else Inl [(''name'', ''This field is required.'')]
         | Some n \<Rightarrow> Inr [(''name'', n)]),
      ser_update = (\<lambda>x validated.
         case map_of validated ''name'' of None \<Rightarrow> x | Some n \<Rightarrow> x\<lparr>attr_name := n\<rparr>)\<rparr>"

definition no_pagination :: "'a paginator" where
  "no_pagination req rows = Inr None"

text \<open>A runtime that takes plain ASCII integer literals and nothing else.\<close>

definition plain :: runtime where
  "plain =
     \<lparr>builtin_int = (\<lambda>s. None),
      number_field = (\<lambda>s. if strip s = [] then Inr None
                            else (case ascii_int s of
                                    None \<Rightarrow> Inl ''Enter a number.''
                                  | Some n \<Rightarrow> Inr (Some n)))\<rparr>"

definition email_serializer :: "user serializer" where
  "email_serializer =
     \<lparr>to_representation = (\<lambda>u. [(''email'', user_email u)]),
      run_validation = (\<lambda>partial u payload.
         case map_of payload ''email'' of
           None \<Rightarrow> if partial then Inr [] else Inl [(''email'', ''This field is required.'')]
         | Some e \<Rightarrow> if CHR ''@'' \<in> set e then Inr [(''email'', e)]
                     else Inl [(''email'', ''Enter a valid email address.'')]),
      ser_update = (\<lambda>u validated.
         case map_of validated ''email'' of None \<Rightarrow> u | Some e \<Rightarrow> u\<lparr>user_email := e\<rparr>)\<rparr>"

definition title_serializer :: "recipe serializer" where
  "title_serializer =
     \<lparr>to_representation = (\<lambda>r. [(''title'', recipe_title r)]),
      run_validation = (\<lambda>partial r payload.
         case map_of payload ''title'' of
           None \<Rightarrow> if partial then Inr [] else Inl [(''title'', ''This field is required.'')]
         | Some t \<Rightarrow> Inr [(''title'', t)]),
      ser_update = (\<lambda>r validated.
         case map_of validated ''title'' of None \<Rightarrow> r | Some t \<Rightarrow> r\<lparr>recipe_title := t\<rparr>)\<rparr>"

text \<open>An image serializer that takes a payload for an image when its \<^verbatim>\<open>image\<close> field is
  the name of a PNG file.\<close>

definition image_serializer :: "recipe serializer" where
  "image_serializer =
     \<lparr>to_representation = (\<lambda>r. [(''image'', case recipe_image r of None \<Rightarrow> [] | Some f \<Rightarrow> f)]),
      run_validation = (\<lambda>partial r payload.
         case map_of payload ''image'' of
           None \<Rightarrow> Inl [(''image'', ''No file was submitted.'')]
         | Some f \<Rightarrow> if startswith (rev f) (rev ''.png'') then Inr [(''image'', f)]
                     else Inl [(''image'', ''Upload a valid image.'')]),
      ser_update = (\<lambda>r validated.
         case map_of validated ''image'' of None \<Rightarrow> r | Some f \<Rightarrow> r\<lparr>recipe_image := Some f\<rparr>)\<rparr>"

definition shop_serializers :: recipe_serializers where
  "shop_serializers =
     \<lparr>RecipeSerializer = title_serializer,
      RecipeDetailSerializer = title_serializer,
      RecipeImageSerializer = image_serializer\<rparr>"

section \<open>Properties of the query operations\<close>

subsection \<open>Sorting\<close>

lemma set_insort_by: "set (insort_by le x xs) = insert x (set xs)"
  by (induction xs) auto

lemma set_sort_by: "set (sort_by le xs) = set xs"
  by (induction xs) (auto simp: sort_by_def set_insort_by)

lemma sorted_insort_by:
  assumes tot: "\<And>a b. le a b \<or> le b a" and tr: "\<And>a b c. le a b \<Longrightarrow> le b c \<Longrightarrow> le a c"
  shows "sorted_wrt le xs \<Longrightarrow> sorted_wrt le (insort_by le x xs)"
proof (induction xs)
  case Nil
  then show ?case by simp
next
  case (Cons y ys)
  show ?case
  proof (cases "le x y")
    case True
    with Cons.prems tr show ?thesis by auto
  next
    case False
    with tot have "le y x" by blast
    with Cons False show ?thesis by (auto simp: set_insort_by)
  qed
qed

lemma sorted_sort_by:
  assumes tot: "\<And>a b. le a b \<or> le b a" and tr: "\<And>a b c. le a b \<Longrightarrow> le b c \<Longrightarrow> le a c"
  shows "sorted_wrt le (sort_by le xs)"
proof (induction xs)
  case Nil
  then show ?case by (simp add: sort_by_def)
next
  case (Cons x xs)
  have "sort_by le (x # xs) = insort_by le x (sort_by le xs)" by (simp add: sort_by_def)
  with Cons sorted_insort_by[of le, OF tot tr] show ?case by simp
qed

lemma key_lt_asym: "key_lt k a b \<Longrightarrow> \<not> key_lt k b a"
  by (cases k) auto

lemma key_lt_trans: "key_lt k a b \<Longrightarrow> key_lt k b c \<Longrightarrow> key_lt k a c"
  by (cases k) auto

lemma key_lt_negtrans: "\<not> key_lt k a b \<Longrightarrow> \<not> key_lt k b c \<Longrightarrow> \<not> key_lt k a c"
  by (cases k) auto

lemma term_le_total: "term_le ks a b \<or> term_le ks b a"
  by (induction ks) (auto dest: key_lt_asym split: if_splits)

lemma term_le_trans: "term_le ks a b \<Longrightarrow> term_le ks b c \<Longrightarrow> term_le ks a c"
proof (induction ks)
  case Nil
  then show ?case by simp
next
  case (Cons p ks)
  obtain desc k where p: "p = (desc, k)" by (cases p)
  show ?case
  proof (cases desc)
    case True
    with Cons p show ?thesis
      by (auto dest: key_lt_trans key_lt_negtrans key_lt_asym split: if_splits)
  next
    case False
    with Cons p show ?thesis
      by (auto dest: key_lt_trans key_lt_negtrans key_lt_asym split: if_splits)
  qed
qed

lemma sorted_order_rows: "sorted_wrt (term_le ks) (sort_by (term_le ks) xs)"
proof (rule sorted_sort_by)
  show "\<And>a b. term_le ks a b \<or> term_le ks b a" by (rule term_le_total)
  show "\<And>a b c. term_le ks a b \<Longrightarrow> term_le ks b c \<Longrightarrow> term_le ks a c" by (rule term_le_trans)
qed

subsection \<open>Filter backends only select and reorder rows\<close>

lemma set_fetch: "set (fetch qs) = set (qs_rows qs)"
  by (simp add: fetch_def)

lemma distinct_fetch: "qs_distinct qs \<Longrightarrow> distinct (fetch qs)"
  by (simp add: fetch_def)


lemma order_by_rows:
  "order_by fld terms qs = Inr qs' \<Longrightarrow>
     set (qs_rows qs') = set (qs_rows qs) \<and> qs_distinct qs' = qs_distinct qs"
  by (auto simp: order_by_def set_sort_by split: sum.splits)

lemma search_rows:
  "search_filter_queryset v d req qs = Inr qs' \<Longrightarrow>
     set (qs_rows qs') \<subseteq> set (qs_rows qs) \<and> qs_distinct qs' = qs_distinct qs"
  by (auto simp: search_filter_queryset_def qs_filter_def Let_def split: if_splits sum.splits)

lemma qs_join_rows: "set (qs_rows (qs_join rel qs)) \<subseteq> set (qs_rows qs)"
  by (auto simp: qs_join_def)

lemma qs_join_distinct: "qs_distinct (qs_join rel qs) = qs_distinct qs"
  by (simp add: qs_join_def)

lemma filterset_qs_rows:
  "filterset_qs rt meta fs req qs = Inr qs' \<Longrightarrow>
     set (qs_rows qs') \<subseteq> set (qs_rows qs) \<and> qs_distinct qs' = qs_distinct qs"
proof (induction fs arbitrary: qs)
  case Nil
  then show ?case by simp
next
  case (Cons p fs)
  obtain name field_name lookup_expr where p: "p = (name, NumberInFilter field_name lookup_expr)"
    by (cases p, rename_tac a b, case_tac b) auto
  show ?case
  proof (cases "\<exists>w ws. csv_clean rt req name = Inr (Some (w # ws))")
    case False
    then have "filterset_qs rt meta (p # fs) req qs = filterset_qs rt meta fs req qs"
      unfolding p by (auto split: sum.splits option.splits list.splits)
    with Cons.prems have "filterset_qs rt meta fs req qs = Inr qs'" by simp
    then show ?thesis by (rule Cons.IH)
  next
    case True
    then obtain w ws where c: "csv_clean rt req name = Inr (Some (w # ws))" by blast
    with Cons.prems p obtain rel where rel: "meta_related meta field_name = Some rel"
      and le: "lookup_expr = ''in''"
      by (auto split: option.splits if_splits)
    let ?q = "qs_join (\<lambda>x. filter (\<lambda>i. i \<in> set (in_values (w # ws))) (rel x)) qs"
    from Cons.prems p c rel le have "filterset_qs rt meta fs req ?q = Inr qs'" by simp
    then have "set (qs_rows qs') \<subseteq> set (qs_rows ?q) \<and> qs_distinct qs' = qs_distinct ?q"
      by (rule Cons.IH)
    with qs_join_rows[of _ qs] show ?thesis by (auto simp: qs_join_distinct)
  qed
qed

lemma backend_rows:
  "backend_filter_queryset rt b v d req qs = Inr qs' \<Longrightarrow>
     set (qs_rows qs') \<subseteq> set (qs_rows qs) \<and> qs_distinct qs' = qs_distinct qs"
proof (cases b)
  case SearchFilter
  assume "backend_filter_queryset rt b v d req qs = Inr qs'"
  with SearchFilter show ?thesis using search_rows by simp
next
  case OrderingFilter
  assume "backend_filter_queryset rt b v d req qs = Inr qs'"
  with OrderingFilter show ?thesis
    using order_by_rows[of "meta_field (view_meta v)" "get_ordering v req" qs qs']
    by (auto simp: ordering_filter_queryset_def Let_def split: if_splits)
next
  case DjangoFilterBackend
  assume "backend_filter_queryset rt b v d req qs = Inr qs'"
  with DjangoFilterBackend show ?thesis
    using filterset_qs_rows[of rt "view_meta v" _ req qs qs']
    by (auto simp: django_filter_queryset_def split: option.splits if_splits)
qed

lemma apply_backends_rows:
  "apply_backends rt bs v d req qs = Inr qs' \<Longrightarrow>
     set (qs_rows qs') \<subseteq> set (qs_rows qs) \<and> qs_distinct qs' = qs_distinct qs"
proof (induction bs arbitrary: qs)
  case Nil
  then show ?case by simp
next
  case (Cons b bs)
  from Cons.prems obtain q where q: "backend_filter_queryset rt b v d req qs = Inr q"
    and rest: "apply_backends rt bs v d req q = Inr qs'"
    by (auto split: sum.splits)
  from backend_rows[OF q] Cons.IH[OF rest] show ?case by auto
qed

lemma filter_queryset_rows:
  "filter_queryset rt v d req qs = Inr qs' \<Longrightarrow>
     set (qs_rows qs') \<subseteq> set (qs_rows qs) \<and> qs_distinct qs' = qs_distinct qs"
  unfolding filter_queryset_def by (rule apply_backends_rows)

lemma list_rows_subset:
  "get_queryset v d req = Inr qs0 \<Longrightarrow> list_rows rt v d req = Inr rows \<Longrightarrow>
     set rows \<subseteq> set (qs_rows qs0)"
  using filter_queryset_rows[of rt v d req qs0]
  by (auto simp: list_rows_def set_fetch split: sum.splits)

lemma list_rows_distinct:
  "get_queryset v d req = Inr qs0 \<Longrightarrow> qs_distinct qs0 \<Longrightarrow> list_rows rt v d req = Inr rows \<Longrightarrow>
     distinct rows"
  using filter_queryset_rows[of rt v d req qs0]
  by (auto simp: list_rows_def distinct_fetch split: sum.splits)

text \<open>Direct access to a primary key that the view's queryset does not hold: not found,
  unless the query string already fails the list action in the same way.\<close>

lemma get_object_outside_queryset:
  assumes gq: "get_queryset v d req = Inr qs0"
      and out: "\<And>x. x \<in> set (qs_rows qs0) \<Longrightarrow> meta_pk (view_meta v) x \<noteq> k"
      and pk: "py_int rt pk = Some k"
  shows "get_object rt v d req pk = Inl Http404
           \<or> (\<exists>e. list_rows rt v d req = Inl e \<and> get_object rt v d req pk = Inl e)"
proof (cases "filter_queryset rt v d req qs0")
  case (Inl e)
  with gq show ?thesis by (simp add: get_object_def list_rows_def)
next
  case (Inr qs)
  from filter_queryset_rows[OF Inr] out
  have "filter (\<lambda>x. meta_pk (view_meta v) x = k) (fetch qs) = []"
    by (auto simp: filter_empty_conv set_fetch)
  with gq Inr pk show ?thesis by (simp add: get_object_def)
qed

section \<open>The two attribute viewset families\<close>

lemma MixClear_get_queryset_eq: "MixClear_get_queryset rt m = BaseRecipeAttrViewSet_get_queryset rt m"
  by (intro ext) (simp add: MixClear_get_queryset_def BaseRecipeAttrViewSet_get_queryset_def)

lemma MixClear_view_eq: "BaseRecipeAttrMixClearViewSet rt m = BaseRecipeAttrViewSet rt m"
  by (simp add: BaseRecipeAttrMixClearViewSet_def BaseRecipeAttrViewSet_def MixClear_get_queryset_eq)

lemma nomix_handler_eq: "nomix_handler rt v ser pag a pk d req = mixin_handler rt v ser pag a pk d req"
proof (cases a)
  case List
  then show ?thesis
    by (simp add: MixClear_list_def ListModelMixin_list_def paginated_def
             split: sum.splits option.splits prod.splits)
next
  case Update
  then show ?thesis
    by (simp add: MixClear_update_def UpdateModelMixin_update_def perform_update_def Let_def
             split: sum.splits)
next
  case PartialUpdate
  then show ?thesis
    by (simp add: MixClear_partial_update_def MixClear_update_def
                  UpdateModelMixin_partial_update_def UpdateModelMixin_update_def
                  perform_update_def Let_def
             split: sum.splits)
next
  case Destroy
  then show ?thesis
    by (simp add: MixClear_destroy_def DestroyModelMixin_destroy_def perform_destroy_def
             split: sum.splits)
qed

lemma nomix_handler_ext: "nomix_handler rt v ser pag a pk = mixin_handler rt v ser pag a pk"
  by (intro ext) (rule nomix_handler_eq)

text \<open>
  Claim C3. For every request to the list, update, partial update or destroy action, whatever
  its query parameters, payload and credentials, the hand-written viewsets
  (\<^verbatim>\<open>BaseRecipeAttrMixClearViewSet\<close>) and the mixin-based ones (\<^verbatim>\<open>BaseRecipeAttrViewSet\<close>)
  give the same outcome: the same response (status and body) or the same exception, and the
  same database afterwards.
\<close>

theorem mixin_and_handwritten_viewsets_agree:
  "attr_nomix_viewset_request rt m ser pag a pk d req = attr_viewset_request rt m ser pag a pk d req"
  by (simp add: attr_nomix_viewset_request_def attr_viewset_request_def MixClear_view_eq
                nomix_handler_ext)

theorem mixin_and_handwritten_viewsets_agree_witness:
  "attr_nomix_viewset_request plain Tag name_serializer no_pagination Destroy ''1'' shop
     (client [''Token'', ''tok1''] [] [])
   = attr_viewset_request plain Tag name_serializer no_pagination Destroy ''1'' shop
     (client [''Token'', ''tok1''] [] [])"
  by (rule mixin_and_handwritten_viewsets_agree)


section \<open>The recipe viewset's filter set\<close>

text \<open>
  Claim C1. The recipe list is to apply the \<^verbatim>\<open>tags\<close> and \<^verbatim>\<open>ingredients\<close> filters of
  \<^verbatim>\<open>recipe/filters.py\<close>. The class body of \<^verbatim>\<open>RecipeViewSet\<close> asks that module for
  \<^verbatim>\<open>RecipeViewSetFilter\<close>, a name the module does not bind (it binds \<^verbatim>\<open>RecipeFilter\<close>):
  evaluating the class body raises \<^verbatim>\<open>AttributeError\<close>, so no recipe list request is
  served with the filters.
\<close>

theorem RecipeViewSet_filterset_class_unbound:
  "RecipeViewSet = Inl (AttributeError ''recipe.filters'' ''RecipeViewSetFilter'')"
  by (simp add: RecipeViewSet_def module_getattr_def recipe_filters_def)


section \<open>Authentication in front of the views\<close>

lemma dispatch_authenticated:
  "perform_authentication authn d req = Inr (Some u) \<Longrightarrow>
   dispatch authn [IsAuthenticated] h d req =
     (case h d (req\<lparr>req_user := Some u\<rparr>) of
        Inl e \<Rightarrow> (handle_exception authn e, d)
      | Inr (resp, d') \<Rightarrow> (Inr resp, d'))"
  by (simp add: dispatch_def)



section \<open>The tag and ingredient lists\<close>

lemma collect_all_Inr:
  "(\<And>x. x \<in> set xs \<Longrightarrow> \<exists>v. f x = Inr v) \<Longrightarrow> \<exists>vs. collect (map f xs) = Inr vs"
proof (induction xs)
  case Nil
  then show ?case by simp
next
  case (Cons x xs)
  then obtain v where v: "f x = Inr v" by auto
  from Cons obtain vs where "collect (map f xs) = Inr vs" by auto
  with v show ?case by simp
qed

lemma attr_resolve_term:
  "term_valid [''id'', ''name''] t \<Longrightarrow> \<exists>k. resolve_term (meta_field (attr_meta m)) t = Inr k"
  by (auto simp: term_valid_def resolve_term_def attr_meta_def Let_def split: if_splits)

lemma attr_get_ordering_valid:
  "t \<in> set (get_ordering (BaseRecipeAttrViewSet rt m) req) \<Longrightarrow> term_valid [''id'', ''name''] t"
  by (auto simp: get_ordering_def BaseRecipeAttrViewSet_def remove_invalid_fields_def Let_def
                 term_valid_def
           split: option.splits if_splits)

lemma attr_ordering_succeeds:
  "\<exists>qs'. ordering_filter_queryset (BaseRecipeAttrViewSet rt m) req qs = Inr qs'"
proof -
  let ?v = "BaseRecipeAttrViewSet rt m"
  have "\<exists>ks. collect (map (resolve_term (meta_field (attr_meta m))) (get_ordering ?v req)) = Inr ks"
  proof (rule collect_all_Inr)
    fix t assume "t \<in> set (get_ordering ?v req)"
    then have "term_valid [''id'', ''name''] t" by (rule attr_get_ordering_valid)
    then show "\<exists>k. resolve_term (meta_field (attr_meta m)) t = Inr k" by (rule attr_resolve_term)
  qed
  then show ?thesis
    by (auto simp: ordering_filter_queryset_def order_by_def Let_def BaseRecipeAttrViewSet_def)
qed

lemma ordering_filter_rows:
  "ordering_filter_queryset v req qs = Inr qs' \<Longrightarrow>
     set (qs_rows qs') = set (qs_rows qs) \<and> qs_distinct qs' = qs_distinct qs"
  using order_by_rows[of "meta_field (view_meta v)" "get_ordering v req" qs qs']
  by (auto simp: ordering_filter_queryset_def Let_def split: if_splits)

lemma attached_links_nonempty:
  "attached_links m d x \<noteq> [] \<longleftrightarrow> (\<exists>r \<in> set (db_recipes d). attr_pk x \<in> set (recipe_links m r))"
  by (auto simp: attached_links_def filter_empty_conv)

lemma qs_join_rows_eq: "set (qs_rows (qs_join rel qs)) = {x \<in> set (qs_rows qs). rel x \<noteq> []}"
proof -
  have "\<And>x. (x \<in> (\<lambda>_. x) ` set (rel x)) = (rel x \<noteq> [])"
  proof -
    fix x show "(x \<in> (\<lambda>_. x) ` set (rel x)) = (rel x \<noteq> [])"
      by (cases "rel x") auto
  qed
  then show ?thesis by (auto simp: qs_join_def)
qed

lemma restricted_rows:
  "set (qs_rows (qs_distinct_on (qs_filter (\<lambda>x. attr_user x = user_pk u)
                   (qs_join (attached_links m d) (objects_all (attr_table m d))))))
   = {x \<in> set (attr_table m d). attr_user x = user_pk u
        \<and> (\<exists>r \<in> set (db_recipes d). attr_pk x \<in> set (recipe_links m r))}"
proof -
  have "set (qs_rows (qs_distinct_on (qs_filter (\<lambda>x. attr_user x = user_pk u)
                   (qs_join (attached_links m d) (objects_all (attr_table m d))))))
        = {x \<in> set (qs_rows (qs_join (attached_links m d) (objects_all (attr_table m d)))).
             attr_user x = user_pk u}"
    by (auto simp: qs_distinct_on_def qs_filter_def)
  also have "\<dots> = {x \<in> set (attr_table m d). attached_links m d x \<noteq> [] \<and> attr_user x = user_pk u}"
    by (auto simp: qs_join_rows_eq objects_all_def)
  finally show ?thesis by (auto simp: attached_links_nonempty)
qed

lemma unrestricted_rows:
  "set (qs_rows (qs_distinct_on (qs_filter (\<lambda>x. attr_user x = user_pk u)
                   (objects_all (attr_table m d)))))
   = {x \<in> set (attr_table m d). attr_user x = user_pk u}"
  by (auto simp: qs_distinct_on_def qs_filter_def objects_all_def)

lemma py_int_1: "py_int rt ''1'' = Some 1"
  by (simp add: py_int_def is_ascii_def ascii_int_def strip_def is_space_def parse_unsigned_def
                is_digit_def digit_val_def)

lemma py_int_0: "py_int rt ''0'' = Some 0"
  by (simp add: py_int_def is_ascii_def ascii_int_def strip_def is_space_def parse_unsigned_def
                is_digit_def digit_val_def)

text \<open>The rows of \<^verbatim>\<open>get_queryset\<close>: the requester's, and with a non-zero \<^verbatim>\<open>assigned_only\<close>
  only those attached to a recipe.\<close>

lemma attr_get_queryset_rows:
  assumes par: "assigned_only_param rt req = Some n"
      and usr: "req_user req = Some u"
  shows "\<exists>qs0. BaseRecipeAttrViewSet_get_queryset rt m d req = Inr qs0 \<and> qs_distinct qs0
           \<and> set (qs_rows qs0) = {x \<in> set (attr_table m d). attr_user x = user_pk u
                \<and> (n = 0 \<or> (\<exists>r \<in> set (db_recipes d). attr_pk x \<in> set (recipe_links m r)))}"
proof (cases "n = 0")
  case True
  let ?qs = "qs_distinct_on (qs_filter (\<lambda>x. attr_user x = user_pk u) (objects_all (attr_table m d)))"
  have "BaseRecipeAttrViewSet_get_queryset rt m d req = Inr ?qs"
    using par usr True by (simp add: BaseRecipeAttrViewSet_get_queryset_def)
  moreover have "qs_distinct ?qs" by (simp add: qs_distinct_on_def)
  moreover have "set (qs_rows ?qs) = {x \<in> set (attr_table m d). attr_user x = user_pk u
                \<and> (n = 0 \<or> (\<exists>r \<in> set (db_recipes d). attr_pk x \<in> set (recipe_links m r)))}"
    using True by (simp only: unrestricted_rows) simp
  ultimately show ?thesis by blast
next
  case False
  let ?qs = "qs_distinct_on (qs_filter (\<lambda>x. attr_user x = user_pk u)
               (qs_join (attached_links m d) (objects_all (attr_table m d))))"
  have "BaseRecipeAttrViewSet_get_queryset rt m d req = Inr ?qs"
    using par usr False by (simp add: BaseRecipeAttrViewSet_get_queryset_def)
  moreover have "qs_distinct ?qs" by (simp add: qs_distinct_on_def)
  moreover have "set (qs_rows ?qs) = {x \<in> set (attr_table m d). attr_user x = user_pk u
                \<and> (n = 0 \<or> (\<exists>r \<in> set (db_recipes d). attr_pk x \<in> set (recipe_links m r)))}"
    using False by (simp only: restricted_rows) simp
  ultimately show ?thesis by blast
qed

text \<open>The search backend on a tag or ingredient viewset keeps the rows whose name contains
  every search term.\<close>

lemma attr_search_rows:
  "\<exists>qs1. search_filter_queryset (BaseRecipeAttrViewSet rt m) d req qs = Inr qs1
         \<and> qs_distinct qs1 = qs_distinct qs
         \<and> set (qs_rows qs1) = {x \<in> set (qs_rows qs). name_matches req x}"
proof (cases "get_search_terms req = []")
  case True
  then show ?thesis
    by (simp add: search_filter_queryset_def BaseRecipeAttrViewSet_def name_matches_def)
next
  case False
  have "search_filter_queryset (BaseRecipeAttrViewSet rt m) d req qs
          = Inr (qs_filter (\<lambda>x. list_all (icontains (attr_name x)) (get_search_terms req)) qs)"
    using False
    by (simp add: search_filter_queryset_def BaseRecipeAttrViewSet_def attr_meta_def
                  row_matches_def name_matches_def Let_def)
  then show ?thesis by (auto simp: qs_filter_def name_matches_def)
qed

text \<open>The rows a list action of a tag or ingredient viewset serialises, each once.\<close>

lemma attr_list_rows:
  assumes par: "assigned_only_param rt req = Some n"
      and usr: "req_user req = Some u"
  shows "\<exists>rows. list_rows rt (BaseRecipeAttrViewSet rt m) d req = Inr rows \<and> distinct rows
           \<and> set rows = {x \<in> set (attr_table m d). attr_user x = user_pk u
                \<and> (n = 0 \<or> (\<exists>r \<in> set (db_recipes d). attr_pk x \<in> set (recipe_links m r)))
                \<and> name_matches req x}"
proof -
  let ?v = "BaseRecipeAttrViewSet rt m"
  from attr_get_queryset_rows[OF par usr, of m d] obtain qs0
    where gq: "BaseRecipeAttrViewSet_get_queryset rt m d req = Inr qs0"
      and d0: "qs_distinct qs0"
      and r0: "set (qs_rows qs0) = {x \<in> set (attr_table m d). attr_user x = user_pk u
                \<and> (n = 0 \<or> (\<exists>r \<in> set (db_recipes d). attr_pk x \<in> set (recipe_links m r)))}"
    by blast
  from attr_search_rows[of rt m d req qs0] obtain qs1
    where s: "search_filter_queryset ?v d req qs0 = Inr qs1"
      and d1: "qs_distinct qs1 = qs_distinct qs0"
      and r1: "set (qs_rows qs1) = {x \<in> set (qs_rows qs0). name_matches req x}"
    by blast
  obtain qs2 where o: "ordering_filter_queryset ?v req qs1 = Inr qs2"
    using attr_ordering_succeeds by blast
  have fq: "filter_queryset rt ?v d req qs0 = Inr qs2"
    using s o by (simp add: filter_queryset_def BaseRecipeAttrViewSet_def)
  have gq': "get_queryset ?v d req = Inr qs0"
    using gq by (simp add: BaseRecipeAttrViewSet_def)
  have lr: "list_rows rt ?v d req = Inr (fetch qs2)"
    using gq' fq by (simp add: list_rows_def)
  from ordering_filter_rows[OF o] d0 d1 have "distinct (fetch qs2)"
    by (simp add: distinct_fetch)
  moreover from ordering_filter_rows[OF o] r0 r1
  have "set (fetch qs2) = {x \<in> set (attr_table m d). attr_user x = user_pk u
                \<and> (n = 0 \<or> (\<exists>r \<in> set (db_recipes d). attr_pk x \<in> set (recipe_links m r)))
                \<and> name_matches req x}"
    by (simp only: set_fetch) blast
  ultimately show ?thesis using lr by blast
qed

text \<open>The list action's response, from the rows: both families hand them to pagination
  and the serializer.\<close>

lemma ListModelMixin_list_rows:
  "ListModelMixin_list rt v ser pag d req =
     (case list_rows rt v d req of
        Inl e \<Rightarrow> Inl e
      | Inr rows \<Rightarrow> (case paginated ser pag req rows of Inl e \<Rightarrow> Inl e | Inr resp \<Rightarrow> Inr (resp, d)))"
  by (simp add: ListModelMixin_list_def list_rows_def split: sum.splits)

lemma attr_list_action:
  assumes au: "perform_authentication [TokenAuthentication] d req = Inr (Some u)"
  shows "attr_viewset_request rt m ser pag List pk d req =
           (case list_rows rt (BaseRecipeAttrViewSet rt m) d (req\<lparr>req_user := Some u\<rparr>) of
              Inl e \<Rightarrow> (handle_exception [TokenAuthentication] e, d)
            | Inr rows \<Rightarrow> list_response ser pag (req\<lparr>req_user := Some u\<rparr>) rows d)"
proof -
  have "attr_viewset_request rt m ser pag List pk d req =
          dispatch [TokenAuthentication] [IsAuthenticated]
            (ListModelMixin_list rt (BaseRecipeAttrViewSet rt m) ser pag) d req"
    by (simp add: attr_viewset_request_def BaseRecipeAttrViewSet_def Let_def)
  then show ?thesis
    by (simp add: dispatch_authenticated[OF au] ListModelMixin_list_rows list_response_def
             split: sum.splits)
qed

lemma attr_nomix_viewset_request_eq:
  "attr_nomix_viewset_request rt m ser pag a pk d req = attr_viewset_request rt m ser pag a pk d req"
  by (simp add: attr_nomix_viewset_request_def attr_viewset_request_def MixClear_view_eq
                nomix_handler_ext)

lemma name_matches_user [simp]: "name_matches (req\<lparr>req_user := u\<rparr>) x = name_matches req x"
  by (simp add: name_matches_def get_search_terms_def)

lemma assigned_only_param_user [simp]:
  "assigned_only_param rt (req\<lparr>req_user := u\<rparr>) = assigned_only_param rt req"
  by (simp add: assigned_only_param_def)

text \<open>The answer to an authenticated list request whose \<^verbatim>\<open>assigned_only\<close> is an integer.\<close>

lemma attr_list_response:
  assumes au: "perform_authentication [TokenAuthentication] d req = Inr (Some u)"
      and par: "assigned_only_param rt req = Some n"
  shows "\<exists>rows. attr_viewset_request rt m ser pag List pk d req
                  = list_response ser pag (req\<lparr>req_user := Some u\<rparr>) rows d
           \<and> attr_nomix_viewset_request rt m ser pag List pk d req
                  = list_response ser pag (req\<lparr>req_user := Some u\<rparr>) rows d
           \<and> list_rows rt (BaseRecipeAttrViewSet rt m) d (req\<lparr>req_user := Some u\<rparr>) = Inr rows
           \<and> distinct rows
           \<and> set rows = {x \<in> set (attr_table m d). attr_user x = user_pk u
                \<and> (n = 0 \<or> (\<exists>r \<in> set (db_recipes d). attr_pk x \<in> set (recipe_links m r)))
                \<and> name_matches req x}"
proof -
  let ?r = "req\<lparr>req_user := Some u\<rparr>"
  have par': "assigned_only_param rt ?r = Some n" using par by simp
  have usr: "req_user ?r = Some u" by simp
  from attr_list_rows[OF par' usr, of m d] obtain rows
    where lr: "list_rows rt (BaseRecipeAttrViewSet rt m) d ?r = Inr rows"
      and di: "distinct rows"
      and se: "set rows = {x \<in> set (attr_table m d). attr_user x = user_pk u
                \<and> (n = 0 \<or> (\<exists>r \<in> set (db_recipes d). attr_pk x \<in> set (recipe_links m r)))
                \<and> name_matches req x}"
    by auto
  have "attr_viewset_request rt m ser pag List pk d req = list_response ser pag ?r rows d"
    using attr_list_action[OF au, of rt m ser pag pk] lr by simp
  then show ?thesis using lr di se by (simp only: attr_nomix_viewset_request_eq) blast
qed

lemma list_response_no_pagination:
  "list_response ser no_pagination req rows d
     = (Inr (Response (Rows (map (to_representation ser) rows)) HTTP_200_OK), d)"
  by (simp add: list_response_def paginated_def no_pagination_def)

lemma distinct_singleton: "distinct xs \<Longrightarrow> set xs = {r} \<Longrightarrow> xs = [r]"
proof (cases xs)
  case Nil
  assume "set xs = {r}"
  with Nil show ?thesis by simp
next
  case (Cons y ys)
  assume d: "distinct xs" and s: "set xs = {r}"
  from s Cons have y: "y = r" and sub: "set ys \<subseteq> {r}" by auto
  from d Cons y have "r \<notin> set ys" by simp
  with sub have "ys = []" by (cases ys) auto
  with Cons y show ?thesis by simp
qed

lemma alice_tags_attached:
  "{x \<in> set (attr_table Tag shop). attr_user x = user_pk alice
      \<and> ((1::int) = 0 \<or> (\<exists>r \<in> set (db_recipes shop). attr_pk x \<in> set (recipe_links Tag r)))
      \<and> P x} = {x. x = tag_b \<and> P x}"
  by (auto simp: attr_table_def shop_def alice_def tag_a_def tag_b_def tag_z_def soup_def
                 stew_def salad_def recipe_links_def)

lemma alice_tags_all:
  "{x \<in> set (attr_table Tag shop). attr_user x = user_pk alice
      \<and> ((0::int) = 0 \<or> (\<exists>r \<in> set (db_recipes shop). attr_pk x \<in> set (recipe_links Tag r)))
      \<and> P x} = {x. (x = tag_a \<or> x = tag_b) \<and> P x}"
  by (auto simp: attr_table_def shop_def alice_def tag_a_def tag_b_def tag_z_def)

lemma no_search_matches:
  "qp_get (query_params req) ''search'' = None \<Longrightarrow> name_matches req x"
  by (simp add: name_matches_def get_search_terms_def split_ws_def)

lemma alice_attached_tags:
  "qp_get (query_params req) ''search'' = None \<Longrightarrow>
   {x \<in> set (attr_table Tag shop). attr_user x = user_pk alice
      \<and> (\<exists>r \<in> set (db_recipes shop). attr_pk x \<in> set (recipe_links Tag r))
      \<and> name_matches req x} = {tag_b}"
  using alice_tags_attached[of "\<lambda>x. True"] by (simp add: no_search_matches)

section \<open>The \<^verbatim>\<open>assigned_only\<close> parameter\<close>

lemma get_queryset_unparsable:
  "qp_get (query_params req) ''assigned_only'' = Some s \<Longrightarrow> py_int rt s = None \<Longrightarrow>
   BaseRecipeAttrViewSet_get_queryset rt m d req = Inl ValueError"
  by (simp add: BaseRecipeAttrViewSet_get_queryset_def assigned_only_param_def)

lemma get_queryset_nonzero:
  "qp_get (query_params req) ''assigned_only'' = Some s \<Longrightarrow> py_int rt s = Some n \<Longrightarrow> n \<noteq> 0 \<Longrightarrow>
   req_user req = Some u \<Longrightarrow>
   BaseRecipeAttrViewSet_get_queryset rt m d req =
     Inr (qs_distinct_on (qs_filter (\<lambda>x. attr_user x = user_pk u)
            (qs_join (attached_links m d) (objects_all (attr_table m d)))))"
  by (simp add: BaseRecipeAttrViewSet_get_queryset_def assigned_only_param_def)

text \<open>
  Claim C9. For an authenticated list request to a tag or ingredient viewset (of either
  family) whose \<^verbatim>\<open>assigned_only\<close> value \<open>s\<close> is no integer literal, \<^verbatim>\<open>int(s)\<close> raises
  \<^verbatim>\<open>ValueError\<close> in \<^verbatim>\<open>get_queryset\<close>; the exception handler does not turn it into a
  response, so it leaves the view (no 400) and the database is as before. For every value
  that is a nonzero integer, not only 1, \<^verbatim>\<open>get_queryset\<close> builds the queryset restricted to
  attached rows, and the response is the list action's answer for, each once, the
  requester's attached rows whose name contains every search term.
\<close>

theorem assigned_only_int_conversion:
  assumes "qp_get (query_params req) ''assigned_only'' = Some s"
      and "perform_authentication [TokenAuthentication] d req = Inr (Some u)"
  shows "(py_int rt s = None \<longrightarrow>
            attr_viewset_request rt m ser pag List pk d req = (Inl ValueError, d)
          \<and> attr_nomix_viewset_request rt m ser pag List pk d req = (Inl ValueError, d))
       \<and> (\<forall>n. py_int rt s = Some n \<and> n \<noteq> 0 \<longrightarrow>
            BaseRecipeAttrViewSet_get_queryset rt m d (req\<lparr>req_user := Some u\<rparr>) =
              Inr (qs_distinct_on (qs_filter (\<lambda>x. attr_user x = user_pk u)
                     (qs_join (attached_links m d) (objects_all (attr_table m d)))))
          \<and> MixClear_get_queryset rt m d (req\<lparr>req_user := Some u\<rparr>) =
              Inr (qs_distinct_on (qs_filter (\<lambda>x. attr_user x = user_pk u)
                     (qs_join (attached_links m d) (objects_all (attr_table m d)))))
          \<and> (\<exists>rows. attr_viewset_request rt m ser pag List pk d req
                       = list_response ser pag (req\<lparr>req_user := Some u\<rparr>) rows d
                \<and> attr_nomix_viewset_request rt m ser pag List pk d req
                       = list_response ser pag (req\<lparr>req_user := Some u\<rparr>) rows d
                \<and> distinct rows
                \<and> set rows = {x \<in> set (attr_table m d). attr_user x = user_pk u
                     \<and> (\<exists>r \<in> set (db_recipes d). attr_pk x \<in> set (recipe_links m r))
                     \<and> name_matches req x}))"
proof (intro conjI impI allI)
  assume bad: "py_int rt s = None"
  have gq: "BaseRecipeAttrViewSet_get_queryset rt m d (req\<lparr>req_user := Some u\<rparr>) = Inl ValueError"
    using assms(1) bad by (simp add: get_queryset_unparsable)
  show "attr_viewset_request rt m ser pag List pk d req = (Inl ValueError, d)"
    using gq assms(2)
    by (simp add: attr_viewset_request_def BaseRecipeAttrViewSet_def dispatch_authenticated
                  ListModelMixin_list_def handle_exception_def)
  show "attr_nomix_viewset_request rt m ser pag List pk d req = (Inl ValueError, d)"
    using gq assms(2)
    by (simp add: attr_nomix_viewset_request_def BaseRecipeAttrMixClearViewSet_def
                  MixClear_get_queryset_eq dispatch_authenticated MixClear_list_def
                  handle_exception_def)
next
  fix n assume n: "py_int rt s = Some n \<and> n \<noteq> 0"
  show "BaseRecipeAttrViewSet_get_queryset rt m d (req\<lparr>req_user := Some u\<rparr>) =
              Inr (qs_distinct_on (qs_filter (\<lambda>x. attr_user x = user_pk u)
                     (qs_join (attached_links m d) (objects_all (attr_table m d)))))"
    using assms(1) n by (simp add: get_queryset_nonzero)
  then show "MixClear_get_queryset rt m d (req\<lparr>req_user := Some u\<rparr>) =
              Inr (qs_distinct_on (qs_filter (\<lambda>x. attr_user x = user_pk u)
                     (qs_join (attached_links m d) (objects_all (attr_table m d)))))"
    by (simp add: MixClear_get_queryset_eq)
  from n assms(1) have par: "assigned_only_param rt req = Some n"
    by (simp add: assigned_only_param_def)
  from attr_list_response[OF assms(2) par, of m ser pag pk] n
  show "\<exists>rows. attr_viewset_request rt m ser pag List pk d req
                       = list_response ser pag (req\<lparr>req_user := Some u\<rparr>) rows d
                \<and> attr_nomix_viewset_request rt m ser pag List pk d req
                       = list_response ser pag (req\<lparr>req_user := Some u\<rparr>) rows d
                \<and> distinct rows
                \<and> set rows = {x \<in> set (attr_table m d). attr_user x = user_pk u
                     \<and> (\<exists>r \<in> set (db_recipes d). attr_pk x \<in> set (recipe_links m r))
                     \<and> name_matches req x}"
    by simp blast
qed

lemma py_int_abc: "py_int rt ''abc'' = None"
  by (simp add: py_int_def is_ascii_def ascii_int_def strip_def is_space_def parse_unsigned_def
                is_digit_def)



lemma py_int_minus_1: "py_int rt ''-1'' = Some (- 1)"
  by (simp add: py_int_def is_ascii_def ascii_int_def strip_def is_space_def parse_unsigned_def
                is_digit_def digit_val_def)

lemma alice_authenticates:
  "perform_authentication [TokenAuthentication] shop (client [''Token'', ''tok1''] qp payload)
     = Inr (Some alice)"
  by (simp add: token_authenticate_def authenticate_credentials_def lower_char_def client_def
                shop_def alice_def bob_def)

theorem assigned_only_int_conversion_witness:
  "attr_viewset_request plain Tag name_serializer no_pagination List [] shop
     (client [''Token'', ''tok1''] [(''assigned_only'', ''abc'')] []) = (Inl ValueError, shop)
   \<and> attr_nomix_viewset_request plain Tag name_serializer no_pagination List [] shop
     (client [''Token'', ''tok1''] [(''assigned_only'', ''abc'')] []) = (Inl ValueError, shop)
   \<and> fetch (case BaseRecipeAttrViewSet_get_queryset plain Tag shop
        ((client [''Token'', ''tok1''] [(''assigned_only'', ''-1'')] [])\<lparr>req_user := Some alice\<rparr>) of
          Inr qs \<Rightarrow> qs | Inl e \<Rightarrow> objects_all []) = [tag_b]
   \<and> attr_viewset_request plain Tag name_serializer no_pagination List [] shop
     (client [''Token'', ''tok1''] [(''assigned_only'', ''-1'')] [])
     = (Inr (Response (Rows [[(''name'', ''b'')]]) HTTP_200_OK), shop)"
proof -
  let ?abc = "client [''Token'', ''tok1''] [(''assigned_only'', ''abc'')] []"
  let ?neg = "client [''Token'', ''tok1''] [(''assigned_only'', ''-1'')] []"
  have a1: "qp_get (query_params ?abc) ''assigned_only'' = Some ''abc''"
    by (simp add: qp_get_def client_def)
  have n1: "qp_get (query_params ?neg) ''assigned_only'' = Some ''-1''"
    by (simp add: qp_get_def client_def)
  note bad = assigned_only_int_conversion[where rt = plain and m = Tag and ser = name_serializer
      and pag = no_pagination and pk = "[]", OF a1 alice_authenticates]
  note neg = assigned_only_int_conversion[where rt = plain and m = Tag, OF n1 alice_authenticates]
  from neg py_int_minus_1
  have "BaseRecipeAttrViewSet_get_queryset plain Tag shop (?neg\<lparr>req_user := Some alice\<rparr>) =
          Inr (qs_distinct_on (qs_filter (\<lambda>x. attr_user x = user_pk alice)
                 (qs_join (attached_links Tag shop) (objects_all (attr_table Tag shop)))))"
    by simp
  moreover have "fetch (qs_distinct_on (qs_filter (\<lambda>x. attr_user x = user_pk alice)
                 (qs_join (attached_links Tag shop) (objects_all (attr_table Tag shop))))) = [tag_b]"
    by (simp add: fetch_def qs_distinct_on_def qs_filter_def qs_join_def objects_all_def
                  attr_table_def attached_links_def recipe_links_def shop_def alice_def
                  tag_a_def tag_b_def tag_z_def soup_def stew_def salad_def)
  ultimately have first: "attr_viewset_request plain Tag name_serializer no_pagination List [] shop
       ?abc = (Inl ValueError, shop)
     \<and> attr_nomix_viewset_request plain Tag name_serializer no_pagination List [] shop
       ?abc = (Inl ValueError, shop)
     \<and> fetch (case BaseRecipeAttrViewSet_get_queryset plain Tag shop (?neg\<lparr>req_user := Some alice\<rparr>) of
          Inr qs \<Rightarrow> qs | Inl e \<Rightarrow> objects_all []) = [tag_b]"
    using bad py_int_abc by simp
  have ns: "qp_get (query_params ?neg) ''search'' = None" by (simp add: qp_get_def client_def)
  from assigned_only_int_conversion[where rt = plain and m = Tag and ser = name_serializer
      and pag = no_pagination and pk = "[]", OF n1 alice_authenticates] py_int_minus_1
  obtain rows where
    resp: "attr_viewset_request plain Tag name_serializer no_pagination List [] shop ?neg
             = list_response name_serializer no_pagination (?neg\<lparr>req_user := Some alice\<rparr>) rows shop"
    and di: "distinct rows"
    and se: "set rows = {x \<in> set (attr_table Tag shop). attr_user x = user_pk alice
              \<and> (\<exists>r \<in> set (db_recipes shop). attr_pk x \<in> set (recipe_links Tag r))
              \<and> name_matches ?neg x}"
    by auto
  from se have "set rows = {tag_b}" by (simp only: alice_attached_tags[OF ns])
  with di have "rows = [tag_b]" by (rule distinct_singleton)
  with resp have "attr_viewset_request plain Tag name_serializer no_pagination List [] shop ?neg
                    = (Inr (Response (Rows [[(''name'', ''b'')]]) HTTP_200_OK), shop)"
    by (simp add: list_response_no_pagination name_serializer_def tag_b_def)
  with first show ?thesis by blast
qed

section \<open>Lists restricted to attached rows\<close>

text \<open>
  Claim C4 as stated fails: beside \<^verbatim>\<open>assigned_only=1\<close> a list request may carry a \<^verbatim>\<open>search\<close>
  term, and the search backend runs on the same queryset. The first user's tag 1 is attached
  to recipe 1, yet the answer to \<^verbatim>\<open>?assigned_only=1&search=zzz\<close> is the empty list.
\<close>

theorem assigned_only_list_counterexample:
  "attr_viewset_request plain Tag name_serializer no_pagination List [] shop
     (client [''Token'', ''tok1''] [(''assigned_only'', ''1''), (''search'', ''zzz'')] [])
     = (Inr (Response (Rows []) HTTP_200_OK), shop)
   \<and> tag_b \<in> set (db_tags shop) \<and> attr_user tag_b = user_pk alice
   \<and> soup \<in> set (db_recipes shop) \<and> attr_pk tag_b \<in> set (recipe_tags soup)"
proof -
  let ?r = "client [''Token'', ''tok1''] [(''assigned_only'', ''1''), (''search'', ''zzz'')] []"
  have par: "assigned_only_param plain ?r = Some 1"
    by (simp add: assigned_only_param_def qp_get_def client_def py_int_1)
  have terms: "get_search_terms ?r = [''zzz'']"
    by (simp add: get_search_terms_def qp_get_def client_def split_ws_def str_isspace_def)
  have nm: "\<not> name_matches ?r tag_b"
    by (simp add: name_matches_def terms icontains_def lower_char_def tag_b_def)
  from attr_list_response[OF alice_authenticates par, of Tag name_serializer no_pagination "[]"]
  obtain rows where
    resp: "attr_viewset_request plain Tag name_serializer no_pagination List [] shop ?r
             = list_response name_serializer no_pagination (?r\<lparr>req_user := Some alice\<rparr>) rows shop"
    and se: "set rows = {x \<in> set (attr_table Tag shop). attr_user x = user_pk alice
                \<and> ((1::int) = 0 \<or> (\<exists>r \<in> set (db_recipes shop). attr_pk x \<in> set (recipe_links Tag r)))
                \<and> name_matches ?r x}"
    by blast
  from se nm have "set rows = {}" by (simp only: alice_tags_attached) blast
  then have "rows = []" by simp
  with resp have "attr_viewset_request plain Tag name_serializer no_pagination List [] shop ?r
                    = (Inr (Response (Rows []) HTTP_200_OK), shop)"
    by (simp add: list_response_no_pagination)
  then show ?thesis by (simp add: shop_def tag_b_def alice_def soup_def)
qed

text \<open>
  Claim C4, as amended. For a list request to a tag or ingredient viewset (of either family)
  that token authentication accepts as user \<open>u\<close>: with \<^verbatim>\<open>assigned_only=1\<close> the response is
  the list action's answer (the page of the rows, or all of them, serialised) for, each
  once, exactly \<open>u\<close>'s rows that are attached to at least one recipe and whose name contains
  every \<^verbatim>\<open>search\<close> term; with \<^verbatim>\<open>assigned_only\<close> absent or \<^verbatim>\<open>0\<close> it is that answer for exactly
  \<open>u\<close>'s rows whose name contains every \<^verbatim>\<open>search\<close> term, attached or not.
\<close>

theorem assigned_only_list_response:
  assumes au: "perform_authentication [TokenAuthentication] d req = Inr (Some u)"
  shows "(qp_get (query_params req) ''assigned_only'' = Some ''1'' \<longrightarrow>
            (\<exists>rows. attr_viewset_request rt m ser pag List pk d req
                       = list_response ser pag (req\<lparr>req_user := Some u\<rparr>) rows d
               \<and> attr_nomix_viewset_request rt m ser pag List pk d req
                       = list_response ser pag (req\<lparr>req_user := Some u\<rparr>) rows d
               \<and> distinct rows
               \<and> set rows = {x \<in> set (attr_table m d). attr_user x = user_pk u
                    \<and> (\<exists>r \<in> set (db_recipes d). attr_pk x \<in> set (recipe_links m r))
                    \<and> name_matches req x}))
       \<and> (qp_get (query_params req) ''assigned_only'' = None
            \<or> qp_get (query_params req) ''assigned_only'' = Some ''0'' \<longrightarrow>
            (\<exists>rows. attr_viewset_request rt m ser pag List pk d req
                       = list_response ser pag (req\<lparr>req_user := Some u\<rparr>) rows d
               \<and> attr_nomix_viewset_request rt m ser pag List pk d req
                       = list_response ser pag (req\<lparr>req_user := Some u\<rparr>) rows d
               \<and> distinct rows
               \<and> set rows = {x \<in> set (attr_table m d). attr_user x = user_pk u
                    \<and> name_matches req x}))"
proof (intro conjI impI)
  assume "qp_get (query_params req) ''assigned_only'' = Some ''1''"
  then have par: "assigned_only_param rt req = Some 1"
    by (simp add: assigned_only_param_def py_int_1)
  from attr_list_response[OF au par, of m ser pag pk]
  show "\<exists>rows. attr_viewset_request rt m ser pag List pk d req
                       = list_response ser pag (req\<lparr>req_user := Some u\<rparr>) rows d
               \<and> attr_nomix_viewset_request rt m ser pag List pk d req
                       = list_response ser pag (req\<lparr>req_user := Some u\<rparr>) rows d
               \<and> distinct rows
               \<and> set rows = {x \<in> set (attr_table m d). attr_user x = user_pk u
                    \<and> (\<exists>r \<in> set (db_recipes d). attr_pk x \<in> set (recipe_links m r))
                    \<and> name_matches req x}"
    by simp blast
next
  assume "qp_get (query_params req) ''assigned_only'' = None
            \<or> qp_get (query_params req) ''assigned_only'' = Some ''0''"
  then have par: "assigned_only_param rt req = Some 0"
    by (auto simp: assigned_only_param_def py_int_0)
  from attr_list_response[OF au par, of m ser pag pk]
  show "\<exists>rows. attr_viewset_request rt m ser pag List pk d req
                       = list_response ser pag (req\<lparr>req_user := Some u\<rparr>) rows d
               \<and> attr_nomix_viewset_request rt m ser pag List pk d req
                       = list_response ser pag (req\<lparr>req_user := Some u\<rparr>) rows d
               \<and> distinct rows
               \<and> set rows = {x \<in> set (attr_table m d). attr_user x = user_pk u
                    \<and> name_matches req x}"
    by simp blast
qed

theorem assigned_only_list_response_witness:
  "attr_viewset_request plain Tag name_serializer no_pagination List [] shop
     (client [''Token'', ''tok1''] [(''assigned_only'', ''1'')] [])
     = (Inr (Response (Rows [[(''name'', ''b'')]]) HTTP_200_OK), shop)
   \<and> (\<exists>rows. attr_viewset_request plain Tag name_serializer no_pagination List [] shop
                (client [''Token'', ''tok1''] [(''assigned_only'', ''0'')] [])
                = (Inr (Response (Rows (map (to_representation name_serializer) rows)) HTTP_200_OK),
                   shop)
         \<and> distinct rows \<and> set rows = {tag_a, tag_b})"
proof -
  let ?r1 = "client [''Token'', ''tok1''] [(''assigned_only'', ''1'')] []"
  let ?r0 = "client [''Token'', ''tok1''] [(''assigned_only'', ''0'')] []"
  have a1: "qp_get (query_params ?r1) ''assigned_only'' = Some ''1''"
    and a0: "qp_get (query_params ?r0) ''assigned_only'' = Some ''0''"
    by (simp_all add: qp_get_def client_def)
  have s1: "\<And>x. name_matches ?r1 x" and s0: "\<And>x. name_matches ?r0 x"
    by (simp_all add: no_search_matches qp_get_def client_def)
  have e1: "{x \<in> set (attr_table Tag shop). attr_user x = user_pk alice
              \<and> (\<exists>r \<in> set (db_recipes shop). attr_pk x \<in> set (recipe_links Tag r))
              \<and> name_matches ?r1 x} = {tag_b}"
    using alice_tags_attached[of "\<lambda>x. True"] s1 by simp
  have e0: "{x \<in> set (attr_table Tag shop). attr_user x = user_pk alice \<and> name_matches ?r0 x}
              = {tag_a, tag_b}"
    using alice_tags_all[of "\<lambda>x. True"] s0 by auto
  from assigned_only_list_response[OF alice_authenticates, where rt = plain and m = Tag
         and ser = name_serializer and pag = no_pagination and pk = "[]"] a1
  obtain rows where
    resp: "attr_viewset_request plain Tag name_serializer no_pagination List [] shop ?r1
             = list_response name_serializer no_pagination (?r1\<lparr>req_user := Some alice\<rparr>) rows shop"
    and di: "distinct rows"
    and se: "set rows = {x \<in> set (attr_table Tag shop). attr_user x = user_pk alice
              \<and> (\<exists>r \<in> set (db_recipes shop). attr_pk x \<in> set (recipe_links Tag r))
              \<and> name_matches ?r1 x}"
    by blast
  from se have "set rows = {tag_b}" by (simp only: e1)
  with di have "rows = [tag_b]" by (rule distinct_singleton)
  with resp have one: "attr_viewset_request plain Tag name_serializer no_pagination List [] shop ?r1
                    = (Inr (Response (Rows [[(''name'', ''b'')]]) HTTP_200_OK), shop)"
    by (simp add: list_response_no_pagination name_serializer_def tag_b_def)
  from assigned_only_list_response[OF alice_authenticates, where rt = plain and m = Tag
         and ser = name_serializer and pag = no_pagination and pk = "[]"] a0
  obtain rows0 where
    resp0: "attr_viewset_request plain Tag name_serializer no_pagination List [] shop ?r0
             = list_response name_serializer no_pagination (?r0\<lparr>req_user := Some alice\<rparr>) rows0 shop"
    and di0: "distinct rows0"
    and se0: "set rows0 = {x \<in> set (attr_table Tag shop). attr_user x = user_pk alice
              \<and> name_matches ?r0 x}"
    by blast
  from se0 have "set rows0 = {tag_a, tag_b}" by (simp only: e0)
  with resp0 di0 have "\<exists>rows. attr_viewset_request plain Tag name_serializer no_pagination List [] shop
                ?r0 = (Inr (Response (Rows (map (to_representation name_serializer) rows)) HTTP_200_OK),
                   shop)
         \<and> distinct rows \<and> set rows = {tag_a, tag_b}"
    by (simp only: list_response_no_pagination) blast
  with one show ?thesis by blast
qed

section \<open>The default order of the tag and ingredient lists\<close>

lemma sorted_wrt_remdups: "sorted_wrt P xs \<Longrightarrow> sorted_wrt P (remdups xs)"
  by (induction xs) auto

lemma sorted_wrt_fetch: "sorted_wrt P (qs_rows qs) \<Longrightarrow> sorted_wrt P (fetch qs)"
  by (simp add: fetch_def sorted_wrt_remdups)

lemma order_by_sorted:
  "order_by fld terms qs = Inr qs' \<Longrightarrow>
     \<exists>ks. collect (map (resolve_term fld) terms) = Inr ks
          \<and> sorted_wrt (term_le ks) (qs_rows qs')"
  by (auto simp: order_by_def sorted_order_rows split: sum.splits)

lemma name_descending:
  "sorted_wrt (term_le [(True, StrKey attr_name)]) rows \<Longrightarrow>
     sorted_wrt (\<lambda>x y. attr_name y \<le> attr_name x) rows"
  by (erule sorted_wrt_mono_rel[rotated]) (auto split: if_splits)

lemma minus_name_terms:
  "collect (map (resolve_term (meta_field (attr_meta m))) [''-name'']) = Inr [(True, StrKey attr_name)]"
  by (simp add: resolve_term_def attr_meta_def)

lemma attr_default_get_ordering:
  "qp_get (query_params req) ''ordering'' = None \<Longrightarrow>
     get_ordering (BaseRecipeAttrViewSet rt m) req = [''-name'']"
  by (simp add: get_ordering_def BaseRecipeAttrViewSet_def)

lemma attr_default_rows_sorted:
  assumes no: "qp_get (query_params req) ''ordering'' = None"
      and lr: "list_rows rt (BaseRecipeAttrViewSet rt m) d req = Inr rows"
  shows "sorted_wrt (\<lambda>x y. attr_name y \<le> attr_name x) rows"
proof -
  let ?v = "BaseRecipeAttrViewSet rt m"
  have go: "get_ordering ?v req = [''-name'']" using no by (rule attr_default_get_ordering)
  from lr obtain qs0 qs1 qs2 where "get_queryset ?v d req = Inr qs0"
    and "search_filter_queryset ?v d req qs0 = Inr qs1"
    and o: "ordering_filter_queryset ?v req qs1 = Inr qs2"
    and rows: "rows = fetch qs2"
    by (auto simp: list_rows_def filter_queryset_def BaseRecipeAttrViewSet_def split: sum.splits)
  from o go have "order_by (meta_field (attr_meta m)) [''-name''] qs1 = Inr qs2"
    by (simp add: ordering_filter_queryset_def BaseRecipeAttrViewSet_def)
  from order_by_sorted[OF this] obtain ks
    where "collect (map (resolve_term (meta_field (attr_meta m))) [''-name'']) = Inr ks"
      and "sorted_wrt (term_le ks) (qs_rows qs2)"
    by blast
  then have "sorted_wrt (term_le [(True, StrKey attr_name)]) (qs_rows qs2)"
    by (simp only: minus_name_terms sum.inject)
  then show ?thesis unfolding rows by (intro sorted_wrt_fetch name_descending)
qed

text \<open>
  Claim C5, as amended. For a list request to a tag or ingredient viewset (of either family)
  that gives no \<^verbatim>\<open>ordering\<close> parameter, the ordering applied is the class's default
  \<^verbatim>\<open>-name\<close>: the rows come in descending order of name, not of id; and when token
  authentication accepts the request and \<^verbatim>\<open>assigned_only\<close> is an integer, the response is the
  list action's answer for rows in that order.
\<close>

theorem attr_default_ordering_is_name_descending:
  assumes no: "qp_get (query_params req) ''ordering'' = None"
  shows "get_ordering (BaseRecipeAttrViewSet rt m) req = [''-name'']
       \<and> get_ordering (BaseRecipeAttrMixClearViewSet rt m) req = [''-name'']
       \<and> (\<forall>rows. list_rows rt (BaseRecipeAttrViewSet rt m) d req = Inr rows
             \<or> list_rows rt (BaseRecipeAttrMixClearViewSet rt m) d req = Inr rows
           \<longrightarrow> sorted_wrt (\<lambda>x y. attr_name y \<le> attr_name x) rows)
       \<and> (\<forall>u n. perform_authentication [TokenAuthentication] d req = Inr (Some u)
                 \<and> assigned_only_param rt req = Some n \<longrightarrow>
            (\<exists>rows. attr_viewset_request rt m ser pag List pk d req
                       = list_response ser pag (req\<lparr>req_user := Some u\<rparr>) rows d
                \<and> attr_nomix_viewset_request rt m ser pag List pk d req
                       = list_response ser pag (req\<lparr>req_user := Some u\<rparr>) rows d
                \<and> sorted_wrt (\<lambda>x y. attr_name y \<le> attr_name x) rows))"
proof -
  let ?v = "BaseRecipeAttrViewSet rt m"
  have go: "get_ordering ?v req = [''-name'']" using no by (rule attr_default_get_ordering)
  have srt: "\<forall>rows. list_rows rt ?v d req = Inr rows
               \<longrightarrow> sorted_wrt (\<lambda>x y. attr_name y \<le> attr_name x) rows"
    using attr_default_rows_sorted[OF no] by blast
  have "\<exists>rows. attr_viewset_request rt m ser pag List pk d req
                       = list_response ser pag (req\<lparr>req_user := Some u\<rparr>) rows d
                \<and> attr_nomix_viewset_request rt m ser pag List pk d req
                       = list_response ser pag (req\<lparr>req_user := Some u\<rparr>) rows d
                \<and> sorted_wrt (\<lambda>x y. attr_name y \<le> attr_name x) rows"
    if au: "perform_authentication [TokenAuthentication] d req = Inr (Some u)"
      and par: "assigned_only_param rt req = Some n" for u n
  proof -
    have no': "qp_get (query_params (req\<lparr>req_user := Some u\<rparr>)) ''ordering'' = None"
      using no by simp
    from attr_list_response[OF au par, of m ser pag pk] obtain rows where
      r: "attr_viewset_request rt m ser pag List pk d req
            = list_response ser pag (req\<lparr>req_user := Some u\<rparr>) rows d"
         "attr_nomix_viewset_request rt m ser pag List pk d req
            = list_response ser pag (req\<lparr>req_user := Some u\<rparr>) rows d"
      and lr: "list_rows rt ?v d (req\<lparr>req_user := Some u\<rparr>) = Inr rows"
      by blast
    from attr_default_rows_sorted[OF no' lr] r show ?thesis by blast
  qed
  with go srt show ?thesis by (simp only: MixClear_view_eq) blast
qed

lemma b_after_a: "\<not> ''b'' < ''a''" "''a'' < ''b''"
  by (simp_all add: less_char_def)

lemma alice_tag_list:
  "list_rows plain (TagViewSet plain) shop
     ((client [''Token'', ''tok1''] [] [])\<lparr>req_user := Some alice\<rparr>) = Inr [tag_b, tag_a]"
  by (simp add: list_rows_def TagViewSet_def BaseRecipeAttrViewSet_def
        BaseRecipeAttrViewSet_get_queryset_def assigned_only_param_def filter_queryset_def
        client_def qp_get_def
        search_filter_queryset_def get_search_terms_def split_ws_def
        ordering_filter_queryset_def get_ordering_def order_by_def resolve_term_def
        attr_meta_def sort_by_def fetch_def qs_distinct_on_def qs_filter_def objects_all_def
        attr_table_def shop_def alice_def tag_a_def tag_b_def tag_z_def b_after_a)

lemma alice_tag_response:
  "attr_viewset_request plain Tag name_serializer no_pagination List [] shop
     (client [''Token'', ''tok1''] [] [])
     = (Inr (Response (Rows [[(''name'', ''b'')], [(''name'', ''a'')]]) HTTP_200_OK), shop)"
  using attr_list_action[OF alice_authenticates, of plain Tag name_serializer no_pagination "[]"
          "[]" "[]"] alice_tag_list
  by (simp add: TagViewSet_def list_response_no_pagination name_serializer_def tag_a_def tag_b_def)

text \<open>
  Claim C5 as stated (default \<^verbatim>\<open>-id\<close>) fails: the first user's tags, with ids 1 and 2 and
  names \<open>b\<close> and \<open>a\<close>, are listed with id 1 first.
\<close>

theorem attr_default_ordering_counterexample:
  "list_rows plain (TagViewSet plain) shop
     ((client [''Token'', ''tok1''] [] [])\<lparr>req_user := Some alice\<rparr>) = Inr [tag_b, tag_a]
   \<and> map attr_pk [tag_b, tag_a] = [1, 2]
   \<and> get_ordering (TagViewSet plain) ((client [''Token'', ''tok1''] [] [])\<lparr>req_user := Some alice\<rparr>)
       \<noteq> [''-id'']
   \<and> attr_viewset_request plain Tag name_serializer no_pagination List [] shop
        (client [''Token'', ''tok1''] [] [])
        = (Inr (Response (Rows (map (to_representation name_serializer) [tag_b, tag_a])) HTTP_200_OK),
           shop)"
  using alice_tag_list alice_tag_response
  by (simp add: tag_a_def tag_b_def get_ordering_def TagViewSet_def BaseRecipeAttrViewSet_def
                client_def qp_get_def name_serializer_def)

theorem attr_default_ordering_is_name_descending_witness:
  "get_ordering (BaseRecipeAttrViewSet plain Tag)
     ((client [''Token'', ''tok1''] [] [])\<lparr>req_user := Some alice\<rparr>) = [''-name'']
   \<and> sorted_wrt (\<lambda>x y. attr_name y \<le> attr_name x) [tag_b, tag_a]
   \<and> (\<exists>rows. attr_viewset_request plain Tag name_serializer no_pagination List [] shop
                (client [''Token'', ''tok1''] [] [])
                = (Inr (Response (Rows (map (to_representation name_serializer) rows)) HTTP_200_OK),
                   shop)
         \<and> sorted_wrt (\<lambda>x y. attr_name y \<le> attr_name x) rows)"
proof -
  let ?c = "client [''Token'', ''tok1''] [] []"
  let ?r = "?c\<lparr>req_user := Some alice\<rparr>"
  have "qp_get (query_params ?r) ''ordering'' = None" by (simp add: qp_get_def client_def)
  from attr_default_ordering_is_name_descending[OF this, of plain Tag shop] alice_tag_list
  have one: "get_ordering (BaseRecipeAttrViewSet plain Tag) ?r = [''-name'']
     \<and> sorted_wrt (\<lambda>x y. attr_name y \<le> attr_name x) [tag_b, tag_a]"
    unfolding TagViewSet_def by blast
  have no: "qp_get (query_params ?c) ''ordering'' = None" by (simp add: qp_get_def client_def)
  have par: "assigned_only_param plain ?c = Some 0"
    by (simp add: assigned_only_param_def qp_get_def client_def)
  from attr_default_ordering_is_name_descending[OF no, of plain Tag shop name_serializer
         no_pagination "[]"] alice_authenticates[of "[]" "[]"] par
  have "\<exists>rows. attr_viewset_request plain Tag name_serializer no_pagination List [] shop ?c
                = list_response name_serializer no_pagination ?r rows shop
         \<and> sorted_wrt (\<lambda>x y. attr_name y \<le> attr_name x) rows"
    by blast
  then have "\<exists>rows. attr_viewset_request plain Tag name_serializer no_pagination List [] shop ?c
                = (Inr (Response (Rows (map (to_representation name_serializer) rows)) HTTP_200_OK),
                   shop)
         \<and> sorted_wrt (\<lambda>x y. attr_name y \<le> attr_name x) rows"
    by (simp only: list_response_no_pagination)
  with one show ?thesis by blast
qed

section \<open>Tags and ingredients are visible to their owner only\<close>

lemma not_found_response:
  "handle_exception [TokenAuthentication] Http404
     = Inr (Response (Failure Http404) HTTP_404_NOT_FOUND)"
  by (simp add: handle_exception_def)

lemma mixin_handler_get_object_error:
  "a \<noteq> List \<Longrightarrow> get_object rt v d req pk = Inl e \<Longrightarrow> mixin_handler rt v ser pag a pk d req = Inl e"
  by (cases a)
     (simp_all add: UpdateModelMixin_update_def UpdateModelMixin_partial_update_def
                    DestroyModelMixin_destroy_def)

lemma unique_pk: "distinct (map pk xs) \<Longrightarrow> x \<in> set xs \<Longrightarrow> r \<in> set xs \<Longrightarrow> pk x = pk r \<Longrightarrow> x = r"
  by (meson distinct_map inj_onD)

text \<open>Another user's tag or ingredient is not found by its key.\<close>

lemma attr_get_object_hidden:
  assumes diff: "user_pk u \<noteq> user_pk w"
      and usr: "req_user req = Some w"
      and par: "assigned_only_param rt req = Some n"
      and x: "x \<in> set (attr_table m d)" and own: "attr_user x = user_pk u"
      and uniq: "distinct (map attr_pk (attr_table m d))"
      and pk: "py_int rt pk = Some (attr_pk x)"
  shows "get_object rt (BaseRecipeAttrViewSet rt m) d req pk = Inl Http404"
proof -
  let ?v = "BaseRecipeAttrViewSet rt m"
  from attr_get_queryset_rows[OF par usr, of m d] obtain qs0
    where gq: "get_queryset ?v d req = Inr qs0"
      and r0: "set (qs_rows qs0) \<subseteq> {y \<in> set (attr_table m d). attr_user y = user_pk w}"
    by (auto simp: BaseRecipeAttrViewSet_def)
  have out: "meta_pk (view_meta ?v) y \<noteq> attr_pk x" if "y \<in> set (qs_rows qs0)" for y
  proof -
    from that r0 have y: "y \<in> set (attr_table m d)" "attr_user y = user_pk w" by auto
    have "attr_pk y \<noteq> attr_pk x"
    proof
      assume "attr_pk y = attr_pk x"
      with unique_pk[OF uniq y(1) x] have "y = x" by simp
      with y(2) own diff show False by simp
    qed
    then show ?thesis by (simp add: BaseRecipeAttrViewSet_def attr_meta_def)
  qed
  from attr_list_rows[OF par usr, of m d] obtain rows
    where "list_rows rt ?v d req = Inr rows" by blast
  with get_object_outside_queryset[OF gq out pk] show ?thesis by auto
qed

lemma attr_not_found_response:
  assumes aw: "perform_authentication [TokenAuthentication] d req = Inr (Some w)"
      and nf: "get_object rt (BaseRecipeAttrViewSet rt m) d (req\<lparr>req_user := Some w\<rparr>) pk
                 = Inl Http404"
      and a: "a \<noteq> List"
  shows "attr_viewset_request rt m ser pag a pk d req
           = (Inr (Response (Failure Http404) HTTP_404_NOT_FOUND), d)"
proof -
  let ?v = "BaseRecipeAttrViewSet rt m"
  have c: "authentication_classes ?v = [TokenAuthentication]" "permission_classes ?v = [IsAuthenticated]"
    by (simp_all add: BaseRecipeAttrViewSet_def)
  from mixin_handler_get_object_error[OF a nf]
  have "mixin_handler rt ?v ser pag a pk d (req\<lparr>req_user := Some w\<rparr>) = Inl Http404" .
  with aw c show ?thesis
    by (simp add: attr_viewset_request_def dispatch_authenticated not_found_response Let_def)
qed

text \<open>An \<^verbatim>\<open>assigned_only\<close> that is no integer fails every action with the \<^verbatim>\<open>ValueError\<close>.\<close>

lemma attr_value_error:
  assumes aw: "perform_authentication [TokenAuthentication] d req = Inr (Some w)"
      and par: "assigned_only_param rt req = None"
  shows "attr_viewset_request rt m ser pag a pk d req = (Inl ValueError, d)"
proof -
  let ?v = "BaseRecipeAttrViewSet rt m" and ?r = "req\<lparr>req_user := Some w\<rparr>"
  have c: "authentication_classes ?v = [TokenAuthentication]" "permission_classes ?v = [IsAuthenticated]"
    by (simp_all add: BaseRecipeAttrViewSet_def)
  have gq: "get_queryset ?v d ?r = Inl ValueError"
    using par by (simp add: BaseRecipeAttrViewSet_def BaseRecipeAttrViewSet_get_queryset_def)
  have "mixin_handler rt ?v ser pag a pk d ?r = Inl ValueError"
  proof (cases "a = List")
    case True
    with gq show ?thesis by (simp add: ListModelMixin_list_def)
  next
    case False
    from gq have "get_object rt ?v d ?r pk = Inl ValueError" by (simp add: get_object_def)
    from mixin_handler_get_object_error[OF False this] show ?thesis .
  qed
  with aw c show ?thesis
    by (simp add: attr_viewset_request_def dispatch_authenticated handle_exception_def Let_def)
qed

lemma alice_tags_named_b:
  "{x \<in> set (attr_table Tag shop). attr_user x = user_pk alice
      \<and> ((0::int) = 0 \<or> (\<exists>r \<in> set (db_recipes shop). attr_pk x \<in> set (recipe_links Tag r)))
      \<and> icontains (attr_name x) ''b''} = {tag_b}"
  by (auto simp: attr_table_def shop_def alice_def tag_a_def tag_b_def tag_z_def icontains_def
                 lower_char_def)

text \<open>
  Claim C2 as stated fails for the owner's own list: the list goes through
  \<^verbatim>\<open>assigned_only\<close> and the search backend, so it returns only the owner's rows that pass
  them. The first user's tag 2, named \<open>a\<close>, is not in the first user's list for
  \<^verbatim>\<open>?search=b\<close>.
\<close>

theorem owner_list_counterexample:
  "attr_viewset_request plain Tag name_serializer no_pagination List [] shop
     (client [''Token'', ''tok1''] [(''search'', ''b'')] [])
     = (Inr (Response (Rows [[(''name'', ''b'')]]) HTTP_200_OK), shop)
   \<and> tag_a \<in> set (db_tags shop) \<and> attr_user tag_a = user_pk alice
   \<and> to_representation name_serializer tag_a \<notin> set [[(''name'', ''b'')]]"
proof -
  let ?r = "client [''Token'', ''tok1''] [(''search'', ''b'')] []"
  have par: "assigned_only_param plain ?r = Some 0"
    by (simp add: assigned_only_param_def qp_get_def client_def)
  have terms: "get_search_terms ?r = [''b'']"
    by (simp add: get_search_terms_def qp_get_def client_def split_ws_def str_isspace_def)
  have nm: "\<And>x. name_matches ?r x = icontains (attr_name x) ''b''"
    by (simp add: name_matches_def terms)
  from attr_list_response[OF alice_authenticates par, of Tag name_serializer no_pagination "[]"]
  obtain rows where
    resp: "attr_viewset_request plain Tag name_serializer no_pagination List [] shop ?r
             = list_response name_serializer no_pagination (?r\<lparr>req_user := Some alice\<rparr>) rows shop"
    and di: "distinct rows"
    and se: "set rows = {x \<in> set (attr_table Tag shop). attr_user x = user_pk alice
                \<and> ((0::int) = 0 \<or> (\<exists>r \<in> set (db_recipes shop). attr_pk x \<in> set (recipe_links Tag r)))
                \<and> name_matches ?r x}"
    by blast
  from se have "set rows = {tag_b}" by (simp only: nm alice_tags_named_b)
  with di have "rows = [tag_b]" by (rule distinct_singleton)
  with resp have "attr_viewset_request plain Tag name_serializer no_pagination List [] shop ?r
                    = (Inr (Response (Rows [[(''name'', ''b'')]]) HTTP_200_OK), shop)"
    by (simp add: list_response_no_pagination name_serializer_def tag_b_def)
  then show ?thesis by (simp add: shop_def tag_a_def alice_def name_serializer_def)
qed

text \<open>
  Claim C2, as amended, for tags and ingredients and both viewset families. Let \<open>x\<close> be a
  tag or ingredient owned by \<open>u\<close>, and \<open>w\<close> another user, each accepted by token
  authentication. When \<open>u\<close>'s \<^verbatim>\<open>assigned_only\<close> is an integer, \<open>u\<close>'s list is the list
  action's answer for rows that include \<open>x\<close> exactly when \<open>x\<close> passes \<open>u\<close>'s own filters
  (attached to a recipe if \<^verbatim>\<open>assigned_only\<close> is not 0, name containing every search term).
  When \<open>w\<close>'s \<^verbatim>\<open>assigned_only\<close> is an integer, \<open>w\<close>'s list is the answer for rows without
  \<open>x\<close>, and, primary keys being unique, \<open>w\<close>'s update, partial update and destroy of \<open>x\<close>'s
  key answer 404, not 403, and write nothing. When \<open>w\<close>'s \<^verbatim>\<open>assigned_only\<close> is no integer,
  each of \<open>w\<close>'s requests ends in the \<^verbatim>\<open>ValueError\<close>, and writes nothing.
\<close>

theorem owner_scoped_attr_visibility:
  assumes diff: "user_pk u \<noteq> user_pk w"
      and au: "perform_authentication [TokenAuthentication] d req_u = Inr (Some u)"
      and aw: "perform_authentication [TokenAuthentication] d req_w = Inr (Some w)"
      and x: "x \<in> set (attr_table m d)"
      and own: "attr_user x = user_pk u"
  shows "(\<forall>n. assigned_only_param rt req_u = Some n \<longrightarrow>
            (\<exists>rows. attr_viewset_request rt m ser pag List pk d req_u
                       = list_response ser pag (req_u\<lparr>req_user := Some u\<rparr>) rows d
                \<and> attr_nomix_viewset_request rt m ser pag List pk d req_u
                       = list_response ser pag (req_u\<lparr>req_user := Some u\<rparr>) rows d
                \<and> (x \<in> set rows \<longleftrightarrow>
                     (n = 0 \<or> (\<exists>r \<in> set (db_recipes d). attr_pk x \<in> set (recipe_links m r)))
                     \<and> name_matches req_u x)))
       \<and> (\<forall>n. assigned_only_param rt req_w = Some n \<longrightarrow>
            (\<exists>rows. attr_viewset_request rt m ser pag List pk d req_w
                       = list_response ser pag (req_w\<lparr>req_user := Some w\<rparr>) rows d
                \<and> attr_nomix_viewset_request rt m ser pag List pk d req_w
                       = list_response ser pag (req_w\<lparr>req_user := Some w\<rparr>) rows d
                \<and> x \<notin> set rows)
            \<and> (\<forall>a. a \<noteq> List \<and> distinct (map attr_pk (attr_table m d))
                     \<and> py_int rt pk = Some (attr_pk x) \<longrightarrow>
                  attr_viewset_request rt m ser pag a pk d req_w
                    = (Inr (Response (Failure Http404) HTTP_404_NOT_FOUND), d)
                  \<and> attr_nomix_viewset_request rt m ser pag a pk d req_w
                    = (Inr (Response (Failure Http404) HTTP_404_NOT_FOUND), d)))
       \<and> (assigned_only_param rt req_w = None \<longrightarrow>
            (\<forall>a. attr_viewset_request rt m ser pag a pk d req_w = (Inl ValueError, d)
                \<and> attr_nomix_viewset_request rt m ser pag a pk d req_w = (Inl ValueError, d)))"
proof (intro conjI allI impI)
  fix n assume par: "assigned_only_param rt req_u = Some n"
  from attr_list_response[OF au par, of m ser pag pk] obtain rows where
    r: "attr_viewset_request rt m ser pag List pk d req_u
          = list_response ser pag (req_u\<lparr>req_user := Some u\<rparr>) rows d"
       "attr_nomix_viewset_request rt m ser pag List pk d req_u
          = list_response ser pag (req_u\<lparr>req_user := Some u\<rparr>) rows d"
    and se: "set rows = {x \<in> set (attr_table m d). attr_user x = user_pk u
                \<and> (n = 0 \<or> (\<exists>r \<in> set (db_recipes d). attr_pk x \<in> set (recipe_links m r)))
                \<and> name_matches req_u x}"
    by blast
  from se x own have "x \<in> set rows \<longleftrightarrow>
      (n = 0 \<or> (\<exists>r \<in> set (db_recipes d). attr_pk x \<in> set (recipe_links m r)))
      \<and> name_matches req_u x"
    by simp
  with r show "\<exists>rows. attr_viewset_request rt m ser pag List pk d req_u
                       = list_response ser pag (req_u\<lparr>req_user := Some u\<rparr>) rows d
                \<and> attr_nomix_viewset_request rt m ser pag List pk d req_u
                       = list_response ser pag (req_u\<lparr>req_user := Some u\<rparr>) rows d
                \<and> (x \<in> set rows \<longleftrightarrow>
                     (n = 0 \<or> (\<exists>r \<in> set (db_recipes d). attr_pk x \<in> set (recipe_links m r)))
                     \<and> name_matches req_u x)"
    by blast
next
  fix n assume par: "assigned_only_param rt req_w = Some n"
  from attr_list_response[OF aw par, of m ser pag pk] obtain rows where
    r: "attr_viewset_request rt m ser pag List pk d req_w
          = list_response ser pag (req_w\<lparr>req_user := Some w\<rparr>) rows d"
       "attr_nomix_viewset_request rt m ser pag List pk d req_w
          = list_response ser pag (req_w\<lparr>req_user := Some w\<rparr>) rows d"
    and se: "set rows = {x \<in> set (attr_table m d). attr_user x = user_pk w
                \<and> (n = 0 \<or> (\<exists>r \<in> set (db_recipes d). attr_pk x \<in> set (recipe_links m r)))
                \<and> name_matches req_w x}"
    by blast
  from se own diff have "x \<notin> set rows" by simp
  with r show "\<exists>rows. attr_viewset_request rt m ser pag List pk d req_w
                       = list_response ser pag (req_w\<lparr>req_user := Some w\<rparr>) rows d
                \<and> attr_nomix_viewset_request rt m ser pag List pk d req_w
                       = list_response ser pag (req_w\<lparr>req_user := Some w\<rparr>) rows d
                \<and> x \<notin> set rows"
    by blast
next
  fix n a
  assume par: "assigned_only_param rt req_w = Some n"
    and h: "a \<noteq> List \<and> distinct (map attr_pk (attr_table m d)) \<and> py_int rt pk = Some (attr_pk x)"
  let ?rw = "req_w\<lparr>req_user := Some w\<rparr>"
  have par': "assigned_only_param rt ?rw = Some n" using par by simp
  have ww: "req_user ?rw = Some w" by simp
  from h have a: "a \<noteq> List" and uniq: "distinct (map attr_pk (attr_table m d))"
    and pk: "py_int rt pk = Some (attr_pk x)" by simp_all
  from attr_get_object_hidden[OF diff ww par' x own uniq pk]
  have "get_object rt (BaseRecipeAttrViewSet rt m) d ?rw pk = Inl Http404" .
  from attr_not_found_response[OF aw this a]
  show "attr_viewset_request rt m ser pag a pk d req_w
          = (Inr (Response (Failure Http404) HTTP_404_NOT_FOUND), d)" .
  then show "attr_nomix_viewset_request rt m ser pag a pk d req_w
          = (Inr (Response (Failure Http404) HTTP_404_NOT_FOUND), d)"
    by (simp only: attr_nomix_viewset_request_eq)
next
  fix a assume par: "assigned_only_param rt req_w = None"
  from attr_value_error[OF aw par]
  show "attr_viewset_request rt m ser pag a pk d req_w = (Inl ValueError, d)" .
  then show "attr_nomix_viewset_request rt m ser pag a pk d req_w = (Inl ValueError, d)"
    by (simp only: attr_nomix_viewset_request_eq)
qed

lemma bob_authenticates:
  "perform_authentication [TokenAuthentication] shop (client [''Token'', ''tok2''] qp payload)
     = Inr (Some bob)"
  by (simp add: token_authenticate_def authenticate_credentials_def lower_char_def client_def
                shop_def alice_def bob_def)

lemma shop_tag_pks: "distinct (map attr_pk (attr_table Tag shop))"
  by (simp add: attr_table_def shop_def tag_a_def tag_b_def tag_z_def)

theorem owner_scoped_attr_visibility_witness:
  "(\<exists>rows. attr_viewset_request plain Tag name_serializer no_pagination List ''1'' shop
              (client [''Token'', ''tok1''] [] [])
              = (Inr (Response (Rows (map (to_representation name_serializer) rows)) HTTP_200_OK),
                 shop)
         \<and> tag_b \<in> set rows)
   \<and> (\<exists>rows. attr_viewset_request plain Tag name_serializer no_pagination List ''1'' shop
              (client [''Token'', ''tok2''] [] [])
              = (Inr (Response (Rows (map (to_representation name_serializer) rows)) HTTP_200_OK),
                 shop)
         \<and> tag_b \<notin> set rows)
   \<and> attr_viewset_request plain Tag name_serializer no_pagination Destroy ''1'' shop
        (client [''Token'', ''tok2''] [] [])
        = (Inr (Response (Failure Http404) HTTP_404_NOT_FOUND), shop)
   \<and> attr_nomix_viewset_request plain Tag name_serializer no_pagination Update ''1'' shop
        (client [''Token'', ''tok2''] [] [(''name'', ''mine'')])
        = (Inr (Response (Failure Http404) HTTP_404_NOT_FOUND), shop)
   \<and> attr_viewset_request plain Tag name_serializer no_pagination Destroy ''1'' shop
        (client [''Token'', ''tok2''] [(''assigned_only'', ''abc'')] []) = (Inl ValueError, shop)"
proof -
  let ?ru = "client [''Token'', ''tok1''] [] []"
  let ?rw = "client [''Token'', ''tok2''] [] []"
  let ?rp = "client [''Token'', ''tok2''] [] [(''name'', ''mine'')]"
  let ?rx = "client [''Token'', ''tok2''] [(''assigned_only'', ''abc'')] []"
  have diff: "user_pk alice \<noteq> user_pk bob" by (simp add: alice_def bob_def)
  have x: "tag_b \<in> set (attr_table Tag shop)" by (simp add: attr_table_def shop_def)
  have own: "attr_user tag_b = user_pk alice" by (simp add: tag_b_def alice_def)
  have pu: "assigned_only_param plain ?ru = Some 0" and pw: "assigned_only_param plain ?rw = Some 0"
    and pp: "assigned_only_param plain ?rp = Some 0"
    by (simp_all add: assigned_only_param_def qp_get_def client_def)
  have px: "assigned_only_param plain ?rx = None"
    by (simp add: assigned_only_param_def qp_get_def client_def py_int_abc)
  have nm: "name_matches ?ru tag_b"
    by (simp add: no_search_matches qp_get_def client_def)
  have pk: "py_int plain ''1'' = Some (attr_pk tag_b)" by (simp add: py_int_1 tag_b_def)
  note t = owner_scoped_attr_visibility[OF diff alice_authenticates bob_authenticates x own,
             where rt = plain and ser = name_serializer and pag = no_pagination and pk = "''1''"]
  from t[of "[]" "[]" "[]" "[]"] pu nm
  have one: "\<exists>rows. attr_viewset_request plain Tag name_serializer no_pagination List ''1'' shop ?ru
              = list_response name_serializer no_pagination (?ru\<lparr>req_user := Some alice\<rparr>) rows shop
         \<and> tag_b \<in> set rows"
    by blast
  from t[of "[]" "[]" "[]" "[]"] pw
  have two: "\<exists>rows. attr_viewset_request plain Tag name_serializer no_pagination List ''1'' shop ?rw
              = list_response name_serializer no_pagination (?rw\<lparr>req_user := Some bob\<rparr>) rows shop
         \<and> tag_b \<notin> set rows"
    by blast
  from t[of "[]" "[]" "[]" "[]"] pw shop_tag_pks pk
  have three: "attr_viewset_request plain Tag name_serializer no_pagination Destroy ''1'' shop ?rw
        = (Inr (Response (Failure Http404) HTTP_404_NOT_FOUND), shop)"
    by blast
  from t[of "[]" "[]" "[]" "[(''name'', ''mine'')]"] pp shop_tag_pks pk
  have four: "attr_nomix_viewset_request plain Tag name_serializer no_pagination Update ''1'' shop ?rp
        = (Inr (Response (Failure Http404) HTTP_404_NOT_FOUND), shop)"
    by blast
  from t[of "[]" "[]" "[(''assigned_only'', ''abc'')]" "[]"] px
  have five: "attr_viewset_request plain Tag name_serializer no_pagination Destroy ''1'' shop ?rx
        = (Inl ValueError, shop)"
    by blast
  from one two three four five show ?thesis
    by (simp only: list_response_no_pagination)
qed

section \<open>The user list\<close>






section \<open>The "me" views\<close>

lemma valid_token_authenticates:
  assumes "auth_header req = [''Token'', key]"
      and "map_of (db_tokens d) key = Some (user_pk u)"
      and "find (\<lambda>x. user_pk x = user_pk u) (db_users d) = Some u"
      and "user_is_active u"
  shows "perform_authentication [TokenAuthentication] d req = Inr (Some u)"
  using assms by (simp add: token_authenticate_def authenticate_credentials_def lower_char_def)

text \<open>
  Claim C8. For a request whose token is that of the active user \<open>u\<close>, GET on
  \<^verbatim>\<open>ManageUserView\<close> (the route \<^verbatim>\<open>me/\<close>) and on \<^verbatim>\<open>ManageUserApiView\<close> answers 200 with
  the serialisation of \<open>u\<close>, hence never with another user's record where the two
  serialise differently; PUT and PATCH validate the payload against \<open>u\<close> and write \<open>u\<close>'s
  row only: the target of every "me" operation is the user the token stands for.
\<close>

theorem me_is_the_token_user:
  assumes hdr: "auth_header req = [''Token'', key]"
      and tok: "map_of (db_tokens d) key = Some (user_pk u)"
      and usr: "find (\<lambda>x. user_pk x = user_pk u) (db_users d) = Some u"
      and act: "user_is_active u"
  shows "ManageUserView ser GET d req
           = (Inr (Response (Object (to_representation ser u)) HTTP_200_OK), d)
       \<and> ManageUserApiView ser GET d req
           = (Inr (Response (Object (to_representation ser u)) HTTP_200_OK), d)
       \<and> (\<forall>v. to_representation ser v \<noteq> to_representation ser u \<longrightarrow>
             fst (ManageUserView ser GET d req)
               \<noteq> Inr (Response (Object (to_representation ser v)) HTTP_200_OK)
           \<and> fst (ManageUserApiView ser GET d req)
               \<noteq> Inr (Response (Object (to_representation ser v)) HTTP_200_OK))
       \<and> ManageUserView ser PUT d req = me_update_outcome ser False u d req
       \<and> ManageUserApiView ser PUT d req = me_update_outcome ser False u d req
       \<and> ManageUserView ser PATCH d req = me_update_outcome ser True u d req
       \<and> ManageUserApiView ser PATCH d req = me_update_outcome ser True u d req"
proof -
  note au = valid_token_authenticates[OF hdr tok usr act]
  have g1: "ManageUserView ser GET d req
           = (Inr (Response (Object (to_representation ser u)) HTTP_200_OK), d)"
    using au by (simp add: ManageUserView_def dispatch_authenticated RetrieveModelMixin_retrieve_def
                           ManageUserView_get_object_def)
  have g2: "ManageUserApiView ser GET d req
           = (Inr (Response (Object (to_representation ser u)) HTTP_200_OK), d)"
    using au by (simp add: ManageUserApiView_def dispatch_authenticated ManageUserApiView_get_def)
  have p1: "ManageUserView ser PUT d req = me_update_outcome ser False u d req"
    using au by (simp add: ManageUserView_def dispatch_authenticated UpdateModelMixin_update_def
                           ManageUserView_get_object_def perform_update_def me_update_outcome_def
                           user_save_def handle_exception_def Let_def split: sum.splits)
  have p2: "ManageUserApiView ser PUT d req = me_update_outcome ser False u d req"
    using au by (simp add: ManageUserApiView_def dispatch_authenticated ManageUserApiView_put_def
                           me_update_outcome_def user_save_def handle_exception_def Let_def
                      split: sum.splits)
  have q1: "ManageUserView ser PATCH d req = me_update_outcome ser True u d req"
    using au by (simp add: ManageUserView_def dispatch_authenticated UpdateModelMixin_update_def
                           UpdateModelMixin_partial_update_def
                           ManageUserView_get_object_def perform_update_def me_update_outcome_def
                           user_save_def handle_exception_def Let_def split: sum.splits)
  have q2: "ManageUserApiView ser PATCH d req = me_update_outcome ser True u d req"
    using au by (simp add: ManageUserApiView_def dispatch_authenticated ManageUserApiView_patch_def
                           me_update_outcome_def user_save_def handle_exception_def Let_def
                      split: sum.splits)
  from g1 g2 p1 p2 q1 q2 show ?thesis by (simp add: Response_def)
qed

text \<open>A write through the "me" views leaves every other user's row as it was, when the
  serializer keeps the primary key.\<close>

lemma replace_row_others:
  "pk x' = k \<Longrightarrow> filter (\<lambda>x. pk x \<noteq> k) (replace_row pk x' xs) = filter (\<lambda>x. pk x \<noteq> k) xs"
  by (induction xs) (auto simp: replace_row_def)

lemma me_update_keeps_others:
  assumes "user_pk (ser_update ser u validated) = user_pk u"
  shows "filter (\<lambda>x. user_pk x \<noteq> user_pk u)
           (replace_row user_pk (ser_update ser u validated) (db_users d))
         = filter (\<lambda>x. user_pk x \<noteq> user_pk u) (db_users d)"
  using assms by (rule replace_row_others)

theorem me_is_the_token_user_witness:
  "ManageUserView email_serializer GET shop (client [''Token'', ''tok2''] [] [])
     = (Inr (Response (Object [(''email'', ''bob@example.com'')]) HTTP_200_OK), shop)
   \<and> fst (ManageUserApiView email_serializer GET shop (client [''Token'', ''tok2''] [] []))
       \<noteq> Inr (Response (Object (to_representation email_serializer alice)) HTTP_200_OK)
   \<and> ManageUserApiView email_serializer PATCH shop
       (client [''Token'', ''tok2''] [] [(''email'', ''bobby@example.com'')])
     = (Inr (Response (Object [(''email'', ''bobby@example.com'')]) HTTP_200_OK),
        shop\<lparr>db_users := [alice, bob\<lparr>user_email := ''bobby@example.com''\<rparr>]\<rparr>)"
proof -
  let ?get = "client [''Token'', ''tok2''] [] []"
  let ?patch = "client [''Token'', ''tok2''] [] [(''email'', ''bobby@example.com'')]"
  have h: "auth_header ?get = [''Token'', ''tok2'']" "auth_header ?patch = [''Token'', ''tok2'']"
    by (simp_all add: client_def)
  have t: "map_of (db_tokens shop) ''tok2'' = Some (user_pk bob)"
    by (simp add: shop_def bob_def)
  have u: "find (\<lambda>x. user_pk x = user_pk bob) (db_users shop) = Some bob"
    by (simp add: shop_def alice_def bob_def)
  have a: "user_is_active bob" by (simp add: bob_def)
  have r: "to_representation email_serializer alice \<noteq> to_representation email_serializer bob"
    by (simp add: email_serializer_def alice_def bob_def)
  have o: "me_update_outcome email_serializer True bob shop ?patch
             = (Inr (Response (Object [(''email'', ''bobby@example.com'')]) HTTP_200_OK),
                shop\<lparr>db_users := [alice, bob\<lparr>user_email := ''bobby@example.com''\<rparr>]\<rparr>)"
    by (simp add: me_update_outcome_def email_serializer_def client_def replace_row_def
                  shop_def alice_def bob_def)
  have b: "to_representation email_serializer bob = [(''email'', ''bob@example.com'')]"
    by (simp add: email_serializer_def bob_def)
  note get = me_is_the_token_user[OF h(1) t u a, of email_serializer]
  note patch = me_is_the_token_user[OF h(2) t u a, of email_serializer]
  from get b have "ManageUserView email_serializer GET shop ?get
     = (Inr (Response (Object [(''email'', ''bob@example.com'')]) HTTP_200_OK), shop)"
    by simp
  moreover from get r have "fst (ManageUserApiView email_serializer GET shop ?get)
       \<noteq> Inr (Response (Object (to_representation email_serializer alice)) HTTP_200_OK)"
    by blast
  moreover from patch o have "ManageUserApiView email_serializer PATCH shop ?patch
     = (Inr (Response (Object [(''email'', ''bobby@example.com'')]) HTTP_200_OK),
        shop\<lparr>db_users := [alice, bob\<lparr>user_email := ''bobby@example.com''\<rparr>]\<rparr>)"
    by simp
  ultimately show ?thesis by blast
qed

section \<open>Requests to the recipe viewset\<close>

text \<open>
  Claim C7. The claim describes the intended \<^verbatim>\<open>upload_image\<close>; the code does not get that
  far. The body of \<^verbatim>\<open>RecipeViewSet\<close> raises \<^verbatim>\<open>AttributeError\<close> at
  \<^verbatim>\<open>my_filters.RecipeViewSetFilter\<close> before \<^verbatim>\<open>upload_image\<close> is defined, so a POST to the
  image action, by the owner with a valid image as by anyone else, ends in that exception:
  no 200, no 400, and nothing stored.
\<close>

theorem upload_image_raises_attribute_error:
  "RecipeViewSet_request rt sers pag RecipeUploadImage pk d req
     = (Inl (AttributeError ''recipe.filters'' ''RecipeViewSetFilter''), d)
   \<and> RecipeViewSet_request plain shop_serializers no_pagination RecipeUploadImage ''1'' shop
       (client [''Token'', ''tok1''] [] [(''image'', ''soup.png'')])
     = (Inl (AttributeError ''recipe.filters'' ''RecipeViewSetFilter''), shop)
   \<and> soup \<in> set (db_recipes shop) \<and> recipe_pk soup = 1 \<and> recipe_user soup = user_pk alice
   \<and> run_validation (RecipeImageSerializer shop_serializers) False soup [(''image'', ''soup.png'')]
       = Inr [(''image'', ''soup.png'')]"
  by (simp add: RecipeViewSet_request_def RecipeViewSet_def module_getattr_def recipe_filters_def
                shop_def soup_def alice_def shop_serializers_def image_serializer_def)

text \<open>
  Claim C10. The claim describes the list the class's \<^verbatim>\<open>ordering_fields\<close> would give; the
  code does not get that far. The body of \<^verbatim>\<open>RecipeViewSet\<close> raises \<^verbatim>\<open>AttributeError\<close> at
  \<^verbatim>\<open>my_filters.RecipeViewSetFilter\<close> before \<^verbatim>\<open>ordering_fields\<close> and \<^verbatim>\<open>ordering\<close> are bound,
  so a recipe list request, with \<^verbatim>\<open>ordering=price\<close> as with any other query string, ends in
  that exception: no term is accepted or ignored, and no list comes back in \<^verbatim>\<open>-id\<close> order.
\<close>

theorem recipe_list_raises_attribute_error:
  "RecipeViewSet_request rt sers pag RecipeList pk d req
     = (Inl (AttributeError ''recipe.filters'' ''RecipeViewSetFilter''), d)
   \<and> RecipeViewSet_request plain shop_serializers no_pagination RecipeList [] shop
       (client [''Token'', ''tok1''] [(''ordering'', ''price'')] [])
     = (Inl (AttributeError ''recipe.filters'' ''RecipeViewSetFilter''), shop)"
  by (simp add: RecipeViewSet_request_def RecipeViewSet_def module_getattr_def recipe_filters_def)

end
